theory Spec2Isabelle
  imports Complex_Main
begin

section \<open>Data model of the state controller\<close>

text \<open>
  The embedding follows \<^verbatim>\<open>src/src/stateController.cpp\<close> and the member
  declarations of \<^verbatim>\<open>stateController.h\<close>. A C++ \<^verbatim>\<open>double\<close> is
  idealised as a \<^typ>\<open>real\<close>; the properties below are about control flow, counters and
  which value is stored where, not about rounding. The enumerations are declared in
  \<^verbatim>\<open>parametersAndStates.h\<close>, which is not part of the source tree; their members
  are the ones the controller names.
\<close>

datatype SystemState = WAITING_FOR_USER | UNKNOWN | OFF | PACKED | READY | RUNNING | SUSPENDED

datatype WalkState = STARTING | MOVING | STOPPING | STOPPED

datatype LegState = WALKING | MANUAL | WALKING_TO_MANUAL | MANUAL_TO_WALKING

datatype GaitDesignation = TRIPOD_GAIT | RIPPLE_GAIT | WAVE_GAIT | AMBLE_GAIT | GAIT_UNDESIGNATED

datatype PosingMode = NO_POSING | X_Y_POSING | PITCH_ROLL_POSING | Z_YAW_POSING

datatype CruiseControlMode = CRUISE_CONTROL_OFF | CRUISE_CONTROL_ON

datatype AutoNavigationMode = AUTO_NAVIGATION_OFF | AUTO_NAVIGATION_ON

datatype PoseResetMode =
  NO_RESET | Z_AND_YAW_RESET | X_AND_Y_RESET | PITCH_AND_ROLL_RESET | ALL_RESET | IMMEDIATE_ALL_RESET

datatype ParameterSelection =
  NO_PARAMETER_SELECTION | STEP_FREQUENCY | STEP_CLEARANCE | BODY_CLEARANCE | LEG_SPAN_SCALE
  | VIRTUAL_MASS | VIRTUAL_STIFFNESS | VIRTUAL_DAMPING | FORCE_GAIN

text \<open>A leg designation is a leg id or \<^verbatim>\<open>LEG_UNDESIGNATED\<close> (\<open>None\<close>).\<close>

type_synonym LegDesignation = "nat option"

abbreviation LEG_UNDESIGNATED :: LegDesignation where
  "LEG_UNDESIGNATED \<equiv> None"

type_synonym Vector2d = "real \<times> real"

type_synonym Vector3d = "real \<times> real \<times> real"

definition MAX_MANUAL_LEGS :: int where
  "MAX_MANUAL_LEGS = 2"

subsection \<open>Model: joints and legs\<close>

record Joint =
  joint_name :: string
  position_offset :: real
  current_position :: real
  current_velocity :: real
  current_effort :: real
  packed_position :: real
  desired_position :: real
  prev_desired_position :: real
  desired_velocity :: real

text \<open>
  Of a leg the controller reads and writes: its id, its leg state, its joints, the tip
  position held by its \<^verbatim>\<open>LegPoser\<close>, the impedance offset \<^verbatim>\<open>delta_z\<close>, the
  measured tip force and the tip position given to inverse kinematics.
\<close>

record Leg =
  id_number :: nat
  leg_state :: LegState
  joint_container :: "Joint list"
  poser_tip_position :: Vector3d
  delta_z :: real
  tip_force :: real
  desired_tip_position :: Vector3d

subsection \<open>Parameters\<close>

record AdjustableParameter =
  current_value :: real
  default_value :: real
  min_value :: real
  max_value :: real
  adjust_step :: real

text \<open>
  The eight members of \<^verbatim>\<open>Parameters\<close> whose addresses \<^verbatim>\<open>initParameters\<close>
  inserts into \<^verbatim>\<open>params_.map\<close>. An \<^verbatim>\<open>AdjustableParameter*\<close> is modelled by the
  name of the member it points to; the members themselves live in the store
  \<open>adjustable\<close> of the parameter record.
\<close>

datatype AdjustableMember =
  step_frequency | step_clearance | body_clearance | leg_span_scale
  | virtual_mass | virtual_stiffness | virtual_damping_ratio | force_gain

record Parameters =
  time_delta :: real
  start_up_sequence :: bool
  impedance_control :: bool
  dynamic_stiffness :: bool
  use_joint_effort :: bool
  force_cruise_velocity :: bool
  param_linear_cruise_velocity :: Vector2d
  param_angular_cruise_velocity :: real
  max_linear_acceleration :: real
  max_angular_acceleration :: real
  gait_type :: string
  adjustable :: "AdjustableMember \<Rightarrow> AdjustableParameter"
  param_map :: "(ParameterSelection \<times> AdjustableMember) list"

text \<open>The insertions at the end of \<^verbatim>\<open>initParameters\<close>, in source order.\<close>

definition initParameters_map :: "(ParameterSelection \<times> AdjustableMember) list" where
  "initParameters_map =
     [(STEP_FREQUENCY, step_frequency),
      (STEP_CLEARANCE, step_clearance),
      (BODY_CLEARANCE, body_clearance),
      (LEG_SPAN_SCALE, leg_span_scale),
      (VIRTUAL_MASS, virtual_mass),
      (VIRTUAL_STIFFNESS, virtual_stiffness),
      (VIRTUAL_DAMPING, virtual_damping_ratio),
      (FORCE_GAIN, force_gain)]"

subsection \<open>Calls into the collaborating controllers\<close>

text \<open>
  \<^verbatim>\<open>WalkController\<close>, \<^verbatim>\<open>PoseController\<close>, \<^verbatim>\<open>ImpedanceController\<close> and
  \<^verbatim>\<open>Model\<close> are not part of the source tree. Every call the state controller makes
  into them is recorded, in program order, in a trace; so are warnings, fatal messages
  and \<^verbatim>\<open>ros::shutdown()\<close>. \<open>Walker_init\<close> stands for \<^verbatim>\<open>walker_->init()\<close>.
\<close>

datatype event =
    Poser_updateCurrentPose
  | Impedance_updateStiffness_walker
  | Impedance_updateImpedance nat
  | Poser_directStartup
  | Poser_unpackLegs
  | Poser_packLegs
  | Poser_startUpSequence
  | Poser_shutDownSequence
  | Walker_setGaitParams
  | Walker_init
  | Impedance_init
  | Poser_stepToNewStance
  | Poser_calculateDefaultPose
  | Poser_poseForLegManipulation
  | Impedance_updateStiffness_leg nat real
  | Walker_updateWalk Vector2d real
  | Walker_updateManual LegDesignation Vector3d LegDesignation Vector3d
  | Poser_updateStance
  | Leg_applyIK nat Vector3d
  | Poser_setManualPoseInput
  | Poser_setImuData
  | Interface_publish
  | Ros_warn
  | Ros_fatal
  | Ros_shutdown

text \<open>
  What the collaborators answer during one tick: the progress or completion value each
  choreography returns, the walk state \<^verbatim>\<open>updateWalk\<close> leaves behind, the
  \<^verbatim>\<open>delta_z\<close> that \<^verbatim>\<open>updateImpedance\<close> writes into a leg, the tip position that
  \<^verbatim>\<open>updateStance\<close> writes into a leg's poser, the gait type the parameter
  server holds, the constant \<^verbatim>\<open>UNASSIGNED_VALUE\<close> of the missing headers,
  the position in a leg's joint container of the joint that
  \<^verbatim>\<open>Leg::getJointByIDName\<close> returns (\<open>None\<close> for a null pointer), and the
  values the parameter server holds for the members of \<^verbatim>\<open>Parameters\<close>.

  Modelled from the spec: the walk state is the walker's own and changes in
  \<^verbatim>\<open>updateWalk\<close> only; \<^verbatim>\<open>delta_z\<close> is the output of the impedance step; the
  tip position of a leg's poser is written by \<^verbatim>\<open>updateStance\<close>. What else the
  collaborators keep (poses, step phases, stiffness, joint targets) is outside the model.
\<close>

record Env =
  directStartup :: real
  unpackLegs :: bool
  packLegs :: bool
  startUpSequence :: bool
  shutDownSequence :: bool
  stepToNewStance :: real
  poseForLegManipulation :: real
  updateImpedance :: "Leg \<Rightarrow> real"
  updateWalk :: WalkState
  updateStance :: "Leg \<Rightarrow> Vector3d"
  server_gait_type :: string
  UNASSIGNED_VALUE :: real
  getJointByIDName :: "Leg \<Rightarrow> string \<Rightarrow> nat option"
  server_parameters :: Parameters

subsection \<open>The state controller\<close>

record StateController =
  params :: Parameters
  system_state :: SystemState
  new_system_state :: SystemState
  gait_selection :: GaitDesignation
  posing_mode :: PosingMode
  cruise_control_mode :: CruiseControlMode
  auto_navigation_mode :: AutoNavigationMode
  parameter_selection :: ParameterSelection
  parameter_being_adjusted :: "AdjustableMember option"
  primary_leg_selection :: LegDesignation
  secondary_leg_selection :: LegDesignation
  primary_leg_state :: LegState
  secondary_leg_state :: LegState
  manual_leg_count :: int
  user_input_flag :: bool
  gait_change_flag :: bool
  toggle_primary_leg_state :: bool
  toggle_secondary_leg_state :: bool
  parameter_adjust_flag :: bool
  new_parameter_set :: bool
  transition_state_flag :: bool
  linear_velocity_input :: Vector2d
  angular_velocity_input :: real
  primary_tip_velocity_input :: Vector3d
  secondary_tip_velocity_input :: Vector3d
  linear_cruise_velocity :: Vector2d
  angular_cruise_velocity :: real
  legs :: "Leg list"
  walk_state :: WalkState
  pose_reset_mode :: PoseResetMode
  joint_positions_initialised :: bool
  trace :: "event list"

text \<open>
  \<open>legs\<close> is the leg container of \<^verbatim>\<open>model_\<close> in key order, \<open>walk_state\<close> what
  \<^verbatim>\<open>walker_->getWalkState()\<close> returns, \<open>pose_reset_mode\<close> what
  \<^verbatim>\<open>poser_->getPoseResetMode()\<close> returns. A null or uninitialised pointer that the
  code dereferences is an error value. The controller objects themselves are created by
  \<^verbatim>\<open>init\<close>; the tick and the callbacks that use them run after it.
\<close>

datatype error = InvalidPointer | IndexOutOfRange

definition emit :: "event \<Rightarrow> StateController \<Rightarrow> StateController" where
  "emit e s = s\<lparr>trace := trace s @ [e]\<rparr>"

section \<open>Helpers that the missing headers declare\<close>

text \<open>
  Modelled from the spec: \<^verbatim>\<open>clamped\<close> (declared in \<^verbatim>\<open>standardIncludes.h\<close>,
  missing from the source tree) clamps its first argument into the interval given by the
  other two.
\<close>

definition clamped :: "real \<Rightarrow> real \<Rightarrow> real \<Rightarrow> real" where
  "clamped v lo hi = max lo (min v hi)"

text \<open>
  Modelled from the spec: \<^verbatim>\<open>Model::getLegCount\<close> (declared in \<^verbatim>\<open>model.h\<close>,
  missing from the source tree) is the number of legs the model owns.
\<close>

definition getLegCount :: "Leg list \<Rightarrow> int" where
  "getLegCount ls = int (length ls)"

text \<open>
  Modelled from the spec: \<^verbatim>\<open>Model::getLegByIDNumber\<close> (declared in
  \<^verbatim>\<open>model.h\<close>) looks a leg up by its id in the leg container; there is exactly one
  leg per id, and no leg for \<^verbatim>\<open>LEG_UNDESIGNATED\<close>.
\<close>

fun getLegByIDNumber :: "Leg list \<Rightarrow> LegDesignation \<Rightarrow> Leg option" where
  "getLegByIDNumber ls None = None"
| "getLegByIDNumber ls (Some i) = find (\<lambda>l. id_number l = i) ls"

text \<open>\<^verbatim>\<open>leg->setLegState(st)\<close> on the leg with id \<open>i\<close>.\<close>

definition setLegState :: "nat \<Rightarrow> LegState \<Rightarrow> StateController \<Rightarrow> StateController" where
  "setLegState i st s =
     s\<lparr>legs := map (\<lambda>l. if id_number l = i then l\<lparr>leg_state := st\<rparr> else l) (legs s)\<rparr>"

text \<open>The C++ conversion \<^verbatim>\<open>int(x)\<close> of a double truncates towards zero.\<close>

definition int_of_double :: "real \<Rightarrow> int" where
  "int_of_double x = (if 0 \<le> x then \<lfloor>x\<rfloor> else \<lceil>x\<rceil>)"

section \<open>State transition handler\<close>

definition joint_tolerance :: real where
  "joint_tolerance = 0.01"

text \<open>
  The counter \<^verbatim>\<open>check_packed\<close>: one for every joint of every leg whose distance
  to its packed position (\<^verbatim>\<open>abs\<close> of the difference) is below the tolerance.
\<close>

definition check_packed :: "Leg list \<Rightarrow> int" where
  "check_packed ls =
     sum_list (map (\<lambda>l. sum_list (map (\<lambda>j.
        if \<bar>current_position j - packed_position j\<bar> < joint_tolerance then 1 else 0)
        (joint_container l))) ls)"

text \<open>The branch \<^verbatim>\<open>system_state_ == UNKNOWN\<close>.\<close>

definition resolve_unknown :: "StateController \<Rightarrow> StateController" where
  "resolve_unknown s =
     (if check_packed (legs s) = getLegCount (legs s) then
        (if \<not> start_up_sequence (params s) then emit Ros_shutdown (emit Ros_fatal s)
         else s\<lparr>system_state := PACKED\<rparr>)
      else if \<not> start_up_sequence (params s) then (emit Ros_warn s)\<lparr>system_state := OFF\<rparr>
      else emit Ros_warn (s\<lparr>system_state := PACKED\<rparr>))"

text \<open>The chain of \<^verbatim>\<open>if / else if\<close> that dispatches on the pair (from, to).\<close>

definition transition_dispatch :: "Env \<Rightarrow> StateController \<Rightarrow> StateController" where
  "transition_dispatch env s =
     (if system_state s = UNKNOWN then resolve_unknown s
      else if system_state s = OFF \<and> new_system_state s \<noteq> OFF then
        (if new_system_state s = RUNNING \<and> \<not> start_up_sequence (params s) then
           (let progress = int_of_double (directStartup env * 100);
                complete = (progress = 100);
                s1 = emit Poser_directStartup s
            in if complete then s1\<lparr>system_state := RUNNING\<rparr> else s1)
         else s\<lparr>system_state := PACKED\<rparr>)
      else if system_state s = PACKED \<and> new_system_state s = OFF then s\<lparr>system_state := OFF\<rparr>
      else if system_state s = PACKED
              \<and> (new_system_state s = READY \<or> new_system_state s = RUNNING) then
        (let complete = unpackLegs env; s1 = emit Poser_unpackLegs s
         in if complete then s1\<lparr>system_state := READY\<rparr> else s1)
      else if system_state s = READY
              \<and> (new_system_state s = PACKED \<or> new_system_state s = OFF) then
        (let complete = packLegs env; s1 = emit Poser_packLegs s
         in if complete then s1\<lparr>system_state := PACKED\<rparr> else s1)
      else if system_state s = READY \<and> new_system_state s = RUNNING then
        (let complete = startUpSequence env; s1 = emit Poser_startUpSequence s
         in if complete then s1\<lparr>system_state := RUNNING\<rparr> else s1)
      else if system_state s = RUNNING \<and> new_system_state s \<noteq> RUNNING then
        (if new_system_state s = OFF \<and> \<not> start_up_sequence (params s) then
           s\<lparr>system_state := OFF\<rparr>
         else
           (let complete = shutDownSequence env; s1 = emit Poser_shutDownSequence s
            in if complete then s1\<lparr>system_state := READY\<rparr> else s1))
      else emit Ros_shutdown (emit Ros_fatal s))"

definition transitionSystemState :: "Env \<Rightarrow> StateController \<Rightarrow> StateController" where
  "transitionSystemState env s =
     (let s1 = transition_dispatch env s
      in if system_state s1 = new_system_state s1 then s1\<lparr>transition_state_flag := False\<rparr>
         else s1)"

section \<open>Impedance control\<close>

fun impedance_legs :: "Env \<Rightarrow> Leg list \<Rightarrow> Leg list \<times> event list" where
  "impedance_legs env [] = ([], [])"
| "impedance_legs env (l # ls) =
     (let (ls', evs) = impedance_legs env ls
      in if leg_state l = WALKING
         then (l\<lparr>delta_z := updateImpedance env l\<rparr> # ls',
               Impedance_updateImpedance (id_number l) # evs)
         else (l # ls', evs))"

definition impedanceControl :: "Env \<Rightarrow> StateController \<Rightarrow> StateController" where
  "impedanceControl env s =
     (let s1 = (if walk_state s \<noteq> STOPPED then emit Impedance_updateStiffness_walker s else s);
          (ls, evs) = impedance_legs env (legs s1)
      in s1\<lparr>legs := ls, trace := trace s1 @ evs\<rparr>)"

section \<open>Running state\<close>

subsection \<open>Dynamic parameter adjustment\<close>

definition adjustParameter :: "Env \<Rightarrow> StateController \<Rightarrow> error + StateController" where
  "adjustParameter env s =
     (if walk_state s = STOPPED then
        (if \<not> new_parameter_set s then
           (case parameter_being_adjusted s of
              None \<Rightarrow> Inl InvalidPointer
            | Some p \<Rightarrow>
                (let a = adjustable (params s) p;
                     a' = a\<lparr>current_value :=
                             clamped (current_value a + adjust_step a) (min_value a) (max_value a)\<rparr>
                 in Inr ((emit Impedance_init s)
                      \<lparr>params := (params s)\<lparr>adjustable := (adjustable (params s))(p := a')\<rparr>,
                       new_parameter_set := True\<rparr>)))
         else
           (let complete = (stepToNewStance env = 1); s1 = emit Poser_stepToNewStance s
            in if complete then
                 (case parameter_being_adjusted s of
                    None \<Rightarrow> Inl InvalidPointer
                  | Some p \<Rightarrow> Inr (s1\<lparr>parameter_adjust_flag := False, new_parameter_set := False\<rparr>))
               else Inr s1))
      else Inr (s\<lparr>linear_velocity_input := (0, 0), angular_velocity_input := 0\<rparr>))"

subsection \<open>Gait change\<close>

text \<open>
  \<^verbatim>\<open>initGaitParameters\<close> also reloads the stance phase, swing phase, phase offset and
  offset multipliers of the chosen gait from the parameter server; the controller itself
  never reads them, and they are not part of the model.
\<close>

definition initGaitParameters :: "Env \<Rightarrow> GaitDesignation \<Rightarrow> Parameters \<Rightarrow> Parameters" where
  "initGaitParameters env gaitSelection ps =
     (case gaitSelection of
        TRIPOD_GAIT \<Rightarrow> ps\<lparr>gait_type := ''tripod_gait''\<rparr>
      | RIPPLE_GAIT \<Rightarrow> ps\<lparr>gait_type := ''ripple_gait''\<rparr>
      | WAVE_GAIT \<Rightarrow> ps\<lparr>gait_type := ''wave_gait''\<rparr>
      | AMBLE_GAIT \<Rightarrow> ps\<lparr>gait_type := ''amble_gait''\<rparr>
      | GAIT_UNDESIGNATED \<Rightarrow> ps\<lparr>gait_type := server_gait_type env\<rparr>)"

definition changeGait :: "Env \<Rightarrow> StateController \<Rightarrow> StateController" where
  "changeGait env s =
     (if walk_state s = STOPPED then
        (emit Walker_setGaitParams s)
          \<lparr>params := (initGaitParameters env (gait_selection s) (params s))
                       \<lparr>max_linear_acceleration := - 1, max_angular_acceleration := - 1\<rparr>,
           gait_change_flag := False\<rparr>
      else s\<lparr>linear_velocity_input := (0, 0), angular_velocity_input := 0\<rparr>)"

subsection \<open>Leg state toggle\<close>

text \<open>
  The two transition branches differ only in the state the leg ends in and in the
  direction the manual leg counter moves.
\<close>

definition leg_transition ::
  "Env \<Rightarrow> Leg \<Rightarrow> LegState \<Rightarrow> int \<Rightarrow> StateController \<Rightarrow> StateController" where
  "leg_transition env leg final d s =
     (let s1 = emit Poser_poseForLegManipulation (s\<lparr>pose_reset_mode := IMMEDIATE_ALL_RESET\<rparr>);
          res = poseForLegManipulation env;
          s2 = (if dynamic_stiffness (params s1)
                then emit (Impedance_updateStiffness_leg (id_number leg) res) s1 else s1)
      in if res = 1 then
           (setLegState (id_number leg) final s2)
             \<lparr>toggle_primary_leg_state := False,
              toggle_secondary_leg_state := False,
              pose_reset_mode := NO_RESET,
              manual_leg_count := manual_leg_count s2 + d\<rparr>
         else s2)"

definition legStateToggle :: "Env \<Rightarrow> StateController \<Rightarrow> error + StateController" where
  "legStateToggle env s =
     (if walk_state s = STOPPED then
        (case (if toggle_primary_leg_state s
               then getLegByIDNumber (legs s) (primary_leg_selection s)
               else if toggle_secondary_leg_state s
               then getLegByIDNumber (legs s) (secondary_leg_selection s)
               else None) of
           None \<Rightarrow> Inl InvalidPointer
         | Some transitioning_leg \<Rightarrow>
             (let s1 = emit Poser_calculateDefaultPose s
              in if leg_state transitioning_leg = WALKING then
                   (if manual_leg_count s1 < MAX_MANUAL_LEGS then
                      Inr (setLegState (id_number transitioning_leg) WALKING_TO_MANUAL s1)
                    else
                      Inr (s1\<lparr>toggle_primary_leg_state := False,
                              toggle_secondary_leg_state := False\<rparr>))
                 else if leg_state transitioning_leg = MANUAL then
                   Inr (setLegState (id_number transitioning_leg) MANUAL_TO_WALKING s1)
                 else if leg_state transitioning_leg = WALKING_TO_MANUAL then
                   Inr (leg_transition env transitioning_leg MANUAL 1 s1)
                 else if leg_state transitioning_leg = MANUAL_TO_WALKING then
                   Inr (leg_transition env transitioning_leg WALKING (- 1) s1)
                 else Inr s1))
      else Inr (s\<lparr>linear_velocity_input := (0, 0), angular_velocity_input := 0\<rparr>))"

subsection \<open>The four-stage pipeline\<close>

text \<open>
  The tip position the loop over the legs computes for one leg:
  \<^verbatim>\<open>target_tip_position = leg_poser->getCurrentTipPosition()\<close>, with
  \<^verbatim>\<open>target_tip_position[2] -= leg->getDeltaZ()\<close> unless the leg is \<open>MANUAL\<close>.
\<close>

definition target_tip_position :: "Leg \<Rightarrow> Vector3d" where
  "target_tip_position l =
     (case poser_tip_position l of
        (x, y, z) \<Rightarrow> if leg_state l \<noteq> MANUAL then (x, y, z - delta_z l) else (x, y, z))"

fun ik_legs :: "Leg list \<Rightarrow> Leg list \<times> event list" where
  "ik_legs [] = ([], [])"
| "ik_legs (l # ls) =
     (let target = target_tip_position l;
          l' = l\<lparr>desired_tip_position := target\<rparr>;
          (ls', evs) = ik_legs ls
      in (l' # ls', Leg_applyIK (id_number l') (desired_tip_position l') # evs))"

definition pipeline :: "Env \<Rightarrow> StateController \<Rightarrow> StateController" where
  "pipeline env s =
     (let s1 = (emit (Walker_updateWalk (linear_velocity_input s) (angular_velocity_input s)) s)
                 \<lparr>walk_state := updateWalk env\<rparr>;
          s2 = emit (Walker_updateManual (primary_leg_selection s1) (primary_tip_velocity_input s1)
                       (secondary_leg_selection s1) (secondary_tip_velocity_input s1)) s1;
          s3 = (emit Poser_updateStance s2)
                 \<lparr>legs := map (\<lambda>l. l\<lparr>poser_tip_position := updateStance env l\<rparr>) (legs s2)\<rparr>;
          (ls, evs) = ik_legs (legs s3)
      in s3\<lparr>legs := ls, trace := trace s3 @ evs\<rparr>)"

text \<open>The first part of \<^verbatim>\<open>runningState\<close>: at most one of the four sub-actions.\<close>

definition running_action :: "Env \<Rightarrow> StateController \<Rightarrow> error + StateController" where
  "running_action env s =
     (if gait_change_flag s then Inr (changeGait env s)
      else if parameter_adjust_flag s then adjustParameter env s
      else if toggle_primary_leg_state s \<or> toggle_secondary_leg_state s then legStateToggle env s
      else if cruise_control_mode s = CRUISE_CONTROL_ON then
        Inr (s\<lparr>linear_velocity_input := linear_cruise_velocity s,
               angular_velocity_input := angular_cruise_velocity s\<rparr>)
      else Inr s)"

text \<open>The condition that guards the pipeline, read after the sub-action has run.\<close>

definition pipeline_gate :: "StateController \<Rightarrow> bool" where
  "pipeline_gate s =
     (\<not> ((gait_change_flag s \<or> parameter_adjust_flag s
           \<or> toggle_primary_leg_state s \<or> toggle_secondary_leg_state s)
          \<and> walk_state s = STOPPED))"

definition runningState :: "Env \<Rightarrow> StateController \<Rightarrow> error + StateController" where
  "runningState env s =
     (case running_action env s of
        Inl e \<Rightarrow> Inl e
      | Inr s1 \<Rightarrow> if pipeline_gate s1 then Inr (pipeline env s1) else Inr s1)"

section \<open>State machine loop\<close>

definition loop :: "Env \<Rightarrow> StateController \<Rightarrow> error + StateController" where
  "loop env s =
     (let s1 = (if system_state s \<noteq> UNKNOWN then
                  (let s0 = emit Poser_updateCurrentPose s
                   in if impedance_control (params s0) then impedanceControl env s0 else s0)
                else s)
      in if transition_state_flag s1 then Inr (transitionSystemState env s1)
         else if system_state s1 = RUNNING then runningState env s1
         else Inr s1)"

section \<open>Initialisation\<close>

text \<open>
  \<^verbatim>\<open>initParameters\<close> loads every member of \<^verbatim>\<open>params_\<close> from the parameter
  server, inserts the eight adjustable members into \<^verbatim>\<open>params_.map\<close> and calls
  \<^verbatim>\<open>initGaitParameters(GAIT_UNDESIGNATED)\<close>. The constructor calls it, and it is a
  public method.

  Modelled from the spec: \<^verbatim>\<open>Parameter::init\<close> (declared in
  \<^verbatim>\<open>parametersAndStates.h\<close>, missing from the source tree) replaces the data of
  the member by the value the parameter server holds under the member's name.
  \<^verbatim>\<open>std::map::insert\<close> leaves an entry whose key is already present as it is.
\<close>

definition map_insert :: "'k \<times> 'v \<Rightarrow> ('k \<times> 'v) list \<Rightarrow> ('k \<times> 'v) list" where
  "map_insert kv m = (case map_of m (fst kv) of None \<Rightarrow> m @ [kv] | Some v \<Rightarrow> m)"

definition initParameters :: "Env \<Rightarrow> StateController \<Rightarrow> StateController" where
  "initParameters env s =
     (let server = server_parameters env;
          ps = (params s)
                 \<lparr>time_delta := time_delta server,
                  impedance_control := impedance_control server,
                  gait_type := server_gait_type env,
                  max_linear_acceleration := max_linear_acceleration server,
                  max_angular_acceleration := max_angular_acceleration server,
                  force_cruise_velocity := force_cruise_velocity server,
                  param_linear_cruise_velocity := param_linear_cruise_velocity server,
                  param_angular_cruise_velocity := param_angular_cruise_velocity server,
                  start_up_sequence := start_up_sequence server,
                  dynamic_stiffness := dynamic_stiffness server,
                  use_joint_effort := use_joint_effort server,
                  adjustable := adjustable server\<rparr>;
          ps1 = ps\<lparr>param_map := foldl (\<lambda>m kv. map_insert kv m) (param_map ps) initParameters_map\<rparr>
      in s\<lparr>params := initGaitParameters env GAIT_UNDESIGNATED ps1\<rparr>)"

text \<open>
  \<^verbatim>\<open>init\<close> sets the gait selection from the configured gait type, creates the
  controllers and enters \<open>UNKNOWN\<close>.
\<close>

definition init :: "StateController \<Rightarrow> StateController" where
  "init s =
     (let s1 = (if gait_type (params s) = ''tripod_gait'' then s\<lparr>gait_selection := TRIPOD_GAIT\<rparr>
                else if gait_type (params s) = ''ripple_gait'' then s\<lparr>gait_selection := RIPPLE_GAIT\<rparr>
                else if gait_type (params s) = ''wave_gait'' then s\<lparr>gait_selection := WAVE_GAIT\<rparr>
                else if gait_type (params s) = ''amble_gait'' then s\<lparr>gait_selection := AMBLE_GAIT\<rparr>
                else s)
      in s1\<lparr>system_state := UNKNOWN\<rparr>)"

text \<open>
  The member initialisers of \<^verbatim>\<open>stateController.h\<close>, for given parameters and legs.
  Members the header leaves uninitialised are the null pointer (\<open>None\<close>) and zero
  vectors here; the walker starts \<open>STOPPED\<close>.
\<close>

definition constructed :: "Parameters \<Rightarrow> Leg list \<Rightarrow> StateController" where
  "constructed ps ls =
     \<lparr>params = ps,
      system_state = WAITING_FOR_USER,
      new_system_state = WAITING_FOR_USER,
      gait_selection = GAIT_UNDESIGNATED,
      posing_mode = NO_POSING,
      cruise_control_mode = CRUISE_CONTROL_OFF,
      auto_navigation_mode = AUTO_NAVIGATION_OFF,
      parameter_selection = NO_PARAMETER_SELECTION,
      parameter_being_adjusted = None,
      primary_leg_selection = LEG_UNDESIGNATED,
      secondary_leg_selection = LEG_UNDESIGNATED,
      primary_leg_state = WALKING,
      secondary_leg_state = WALKING,
      manual_leg_count = 0,
      user_input_flag = False,
      gait_change_flag = False,
      toggle_primary_leg_state = False,
      toggle_secondary_leg_state = False,
      parameter_adjust_flag = False,
      new_parameter_set = False,
      transition_state_flag = False,
      linear_velocity_input = (0, 0),
      angular_velocity_input = 0,
      primary_tip_velocity_input = (0, 0, 0),
      secondary_tip_velocity_input = (0, 0, 0),
      linear_cruise_velocity = (0, 0),
      angular_cruise_velocity = 0,
      legs = ls,
      walk_state = STOPPED,
      pose_reset_mode = NO_RESET,
      joint_positions_initialised = False,
      trace = []\<rparr>"

section \<open>Callbacks\<close>

definition bodyVelocityInputCallback :: "Vector2d \<Rightarrow> real \<Rightarrow> StateController \<Rightarrow> StateController" where
  "bodyVelocityInputCallback input_linear input_angular_z s =
     s\<lparr>linear_velocity_input := input_linear, angular_velocity_input := input_angular_z\<rparr>"

definition primaryTipVelocityInputCallback :: "Vector3d \<Rightarrow> StateController \<Rightarrow> StateController" where
  "primaryTipVelocityInputCallback v s = s\<lparr>primary_tip_velocity_input := v\<rparr>"

definition secondaryTipVelocityInputCallback :: "Vector3d \<Rightarrow> StateController \<Rightarrow> StateController" where
  "secondaryTipVelocityInputCallback v s = s\<lparr>secondary_tip_velocity_input := v\<rparr>"

definition bodyPoseInputCallback :: "StateController \<Rightarrow> StateController" where
  "bodyPoseInputCallback s =
     (if system_state s \<noteq> WAITING_FOR_USER then emit Poser_setManualPoseInput s else s)"

definition systemStateCallback :: "SystemState \<Rightarrow> StateController \<Rightarrow> StateController" where
  "systemStateCallback input_state s =
     (let s1 =
        (if new_system_state s = WAITING_FOR_USER then s\<lparr>new_system_state := input_state\<rparr>
         else if system_state s = WAITING_FOR_USER \<and> new_system_state s \<noteq> input_state then
           s\<lparr>new_system_state := input_state, user_input_flag := True\<rparr>
         else if system_state s \<noteq> WAITING_FOR_USER \<and> \<not> start_up_sequence (params s) then
           (let s2 = s\<lparr>new_system_state := input_state\<rparr>
            in if new_system_state s2 = READY \<or> new_system_state s2 = PACKED
               then s2\<lparr>new_system_state := OFF\<rparr> else s2)
         else s)
      in if new_system_state s1 \<noteq> system_state s1 \<and> system_state s1 \<noteq> WAITING_FOR_USER
         then s1\<lparr>transition_state_flag := True\<rparr> else s1)"

definition gaitSelectionCallback :: "GaitDesignation \<Rightarrow> StateController \<Rightarrow> StateController" where
  "gaitSelectionCallback new_gait_selection s =
     (if system_state s = RUNNING then
        (if new_gait_selection \<noteq> gait_selection s \<and> new_gait_selection \<noteq> GAIT_UNDESIGNATED
         then s\<lparr>gait_selection := new_gait_selection, gait_change_flag := True\<rparr> else s)
      else s)"

definition posingModeCallback :: "PosingMode \<Rightarrow> StateController \<Rightarrow> StateController" where
  "posingModeCallback new_posing_mode s =
     (if system_state s = RUNNING then
        (if new_posing_mode \<noteq> posing_mode s then s\<lparr>posing_mode := new_posing_mode\<rparr> else s)
      else s)"

definition cruiseControlCallback :: "CruiseControlMode \<Rightarrow> StateController \<Rightarrow> StateController" where
  "cruiseControlCallback new_cruise_control_mode s =
     (if system_state s = RUNNING then
        (if new_cruise_control_mode \<noteq> cruise_control_mode s then
           (let s1 = s\<lparr>cruise_control_mode := new_cruise_control_mode\<rparr>
            in if new_cruise_control_mode = CRUISE_CONTROL_ON then
                 (if force_cruise_velocity (params s1) then
                    s1\<lparr>linear_cruise_velocity := param_linear_cruise_velocity (params s1),
                       angular_cruise_velocity := param_angular_cruise_velocity (params s1)\<rparr>
                  else
                    s1\<lparr>linear_cruise_velocity := linear_velocity_input s1,
                       angular_cruise_velocity := angular_velocity_input s1\<rparr>)
               else s1)
         else s)
      else s)"

definition autoNavigationCallback :: "AutoNavigationMode \<Rightarrow> StateController \<Rightarrow> StateController" where
  "autoNavigationCallback new_auto_navigation_mode s =
     (if system_state s = RUNNING then
        (if new_auto_navigation_mode \<noteq> auto_navigation_mode s
         then s\<lparr>auto_navigation_mode := new_auto_navigation_mode\<rparr> else s)
      else s)"

text \<open>
  \<^verbatim>\<open>params_.map[parameter_selection_]\<close> yields a null pointer for a key that was never
  inserted, and the log line that follows dereferences it.
\<close>

definition parameterSelectionCallback ::
  "ParameterSelection \<Rightarrow> StateController \<Rightarrow> error + StateController" where
  "parameterSelectionCallback new_parameter_selection s =
     (if system_state s = RUNNING then
        (if new_parameter_selection \<noteq> parameter_selection s then
           (let s1 = s\<lparr>parameter_selection := new_parameter_selection\<rparr>
            in if parameter_selection s1 \<noteq> NO_PARAMETER_SELECTION then
                 (case map_of (param_map (params s1)) (parameter_selection s1) of
                    None \<Rightarrow> Inl InvalidPointer
                  | Some p \<Rightarrow> Inr (s1\<lparr>parameter_being_adjusted := Some p\<rparr>))
               else Inr s1)
         else Inr s)
      else Inr s)"

text \<open>
  Modelled from the spec: \<^verbatim>\<open>sign\<close> (declared in \<^verbatim>\<open>standardIncludes.h\<close>) is the
  sign of a number; the step is negated when its sign opposes the requested direction.
\<close>

definition parameterAdjustCallback :: "int \<Rightarrow> StateController \<Rightarrow> error + StateController" where
  "parameterAdjustCallback adjust_direction s =
     (if system_state s = RUNNING then
        (if adjust_direction \<noteq> 0 \<and> \<not> parameter_adjust_flag s
            \<and> parameter_selection s \<noteq> NO_PARAMETER_SELECTION then
           (case parameter_being_adjusted s of
              None \<Rightarrow> Inl InvalidPointer
            | Some p \<Rightarrow>
                (let a = adjustable (params s) p;
                     a' = (if sgn (adjust_step a) \<noteq> real_of_int (sgn adjust_direction)
                           then a\<lparr>adjust_step := adjust_step a * (- 1)\<rparr> else a)
                 in Inr (s\<lparr>params := (params s)\<lparr>adjustable := (adjustable (params s))(p := a')\<rparr>,
                           parameter_adjust_flag := True\<rparr>)))
         else Inr s)
      else Inr s)"

definition poseResetCallback :: "PoseResetMode \<Rightarrow> StateController \<Rightarrow> StateController" where
  "poseResetCallback input s =
     (if system_state s \<noteq> WAITING_FOR_USER then
        (if pose_reset_mode s \<noteq> IMMEDIATE_ALL_RESET then s\<lparr>pose_reset_mode := input\<rparr> else s)
      else s)"

text \<open>
  The selection callbacks store the leg pointer only for the log line, which
  dereferences it.
\<close>

definition primaryLegSelectionCallback ::
  "LegDesignation \<Rightarrow> StateController \<Rightarrow> error + StateController" where
  "primaryLegSelectionCallback new_primary_leg_selection s =
     (if system_state s = RUNNING then
        (if primary_leg_selection s \<noteq> new_primary_leg_selection then
           (let s1 = s\<lparr>primary_leg_selection := new_primary_leg_selection\<rparr>
            in if new_primary_leg_selection \<noteq> LEG_UNDESIGNATED then
                 (case getLegByIDNumber (legs s1) (primary_leg_selection s1) of
                    None \<Rightarrow> Inl InvalidPointer
                  | Some primary_leg \<Rightarrow> Inr s1)
               else Inr s1)
         else Inr s)
      else Inr s)"

definition secondaryLegSelectionCallback ::
  "LegDesignation \<Rightarrow> StateController \<Rightarrow> error + StateController" where
  "secondaryLegSelectionCallback new_secondary_leg_selection s =
     (if system_state s = RUNNING then
        (if secondary_leg_selection s \<noteq> new_secondary_leg_selection then
           (let s1 = s\<lparr>secondary_leg_selection := new_secondary_leg_selection\<rparr>
            in if new_secondary_leg_selection \<noteq> LEG_UNDESIGNATED then
                 (case getLegByIDNumber (legs s1) (secondary_leg_selection s1) of
                    None \<Rightarrow> Inl InvalidPointer
                  | Some secondary_leg \<Rightarrow> Inr s1)
               else Inr s1)
         else Inr s)
      else Inr s)"

definition primaryLegStateCallback :: "LegState \<Rightarrow> StateController \<Rightarrow> StateController" where
  "primaryLegStateCallback newPrimaryLegState s =
     (if system_state s = RUNNING then
        (if newPrimaryLegState \<noteq> primary_leg_state s then
           (if primary_leg_selection s = LEG_UNDESIGNATED then s
            else if toggle_secondary_leg_state s then s
            else s\<lparr>primary_leg_state := newPrimaryLegState, toggle_primary_leg_state := True\<rparr>)
         else s)
      else s)"

definition secondaryLegStateCallback :: "LegState \<Rightarrow> StateController \<Rightarrow> StateController" where
  "secondaryLegStateCallback newSecondaryLegState s =
     (if system_state s = RUNNING then
        (if newSecondaryLegState \<noteq> secondary_leg_state s then
           (if secondary_leg_selection s = LEG_UNDESIGNATED then s
            else if toggle_primary_leg_state s then s
            else s\<lparr>secondary_leg_state := newSecondaryLegState,
                   toggle_secondary_leg_state := True\<rparr>)
         else s)
      else s)"

definition imuCallback :: "StateController \<Rightarrow> StateController" where
  "imuCallback s = emit Poser_setImuData s"

subsection \<open>Sensor callbacks\<close>

record JointStateMsg =
  msg_name :: "string list"
  msg_position :: "real list"
  msg_velocity :: "real list"
  msg_effort :: "real list"

text \<open>Reading \<^verbatim>\<open>v[i]\<close> from a message array; past its end the read is an error.\<close>

definition at_index :: "real list \<Rightarrow> nat \<Rightarrow> error + real" where
  "at_index v i = (if i < length v then Inr (v ! i) else Inl IndexOutOfRange)"

text \<open>The assignments to one joint for message entry \<open>i\<close>.\<close>

definition assign_joint_state :: "JointStateMsg \<Rightarrow> nat \<Rightarrow> Joint \<Rightarrow> error + Joint" where
  "assign_joint_state m i j =
     (let get_effort_values = (length (msg_effort m) \<noteq> 0);
          get_velocity_values = (length (msg_velocity m) \<noteq> 0)
      in case at_index (msg_position m) i of
           Inl e \<Rightarrow> Inl e
         | Inr p \<Rightarrow>
             (let j1 = j\<lparr>current_position := p - position_offset j\<rparr>
              in case (if get_velocity_values
                       then (case at_index (msg_velocity m) i of
                               Inl e \<Rightarrow> Inl e | Inr v \<Rightarrow> Inr (j1\<lparr>current_velocity := v\<rparr>))
                       else Inr j1) of
                   Inl e \<Rightarrow> Inl e
                 | Inr j2 \<Rightarrow>
                     (if get_effort_values
                      then (case at_index (msg_effort m) i of
                              Inl e \<Rightarrow> Inl e | Inr t \<Rightarrow> Inr (j2\<lparr>current_effort := t\<rparr>))
                      else Inr j2)))"

text \<open>The inner loop over the legs for message entry \<open>i\<close>.\<close>

fun joint_state_legs :: "Env \<Rightarrow> JointStateMsg \<Rightarrow> nat \<Rightarrow> Leg list \<Rightarrow> error + Leg list" where
  "joint_state_legs env m i [] = Inr []"
| "joint_state_legs env m i (l # ls) =
     (case getJointByIDName env l (msg_name m ! i) of
        None \<Rightarrow> Inl InvalidPointer
      | Some k \<Rightarrow>
          (if k < length (joint_container l) then
             (case assign_joint_state m i (joint_container l ! k) of
                Inl e \<Rightarrow> Inl e
              | Inr j \<Rightarrow>
                  (case joint_state_legs env m i ls of
                     Inl e \<Rightarrow> Inl e
                   | Inr ls' \<Rightarrow> Inr (l\<lparr>joint_container := (joint_container l)[k := j]\<rparr> # ls')))
           else Inl InvalidPointer))"

text \<open>The outer loop over the message entries \<open>is\<close>.\<close>

fun joint_state_entries :: "Env \<Rightarrow> JointStateMsg \<Rightarrow> nat list \<Rightarrow> Leg list \<Rightarrow> error + Leg list" where
  "joint_state_entries env m [] ls = Inr ls"
| "joint_state_entries env m (i # is) ls =
     (case joint_state_legs env m i ls of
        Inl e \<Rightarrow> Inl e
      | Inr ls' \<Rightarrow> joint_state_entries env m is ls')"

definition jointStatesCallback ::
  "Env \<Rightarrow> JointStateMsg \<Rightarrow> StateController \<Rightarrow> error + StateController" where
  "jointStatesCallback env m s =
     (case joint_state_entries env m [0 ..< length (msg_name m)] (legs s) of
        Inl e \<Rightarrow> Inl e
      | Inr ls \<Rightarrow>
          (let s1 = s\<lparr>legs := ls\<rparr>
           in if \<not> joint_positions_initialised s1 then
                Inr (s1\<lparr>joint_positions_initialised :=
                          (\<forall>l \<in> set ls. \<forall>j \<in> set (joint_container l).
                              current_position j \<noteq> UNASSIGNED_VALUE env)\<rparr>)
              else Inr s1))"

fun tip_force_legs :: "real list \<Rightarrow> Leg list \<Rightarrow> error + Leg list" where
  "tip_force_legs effort [] = Inr []"
| "tip_force_legs effort (l # ls) =
     (let force_offset = 1255; max_force = 1000; min_force = 0
      in case at_index effort (id_number l * 2) of
           Inl e \<Rightarrow> Inl e
         | Inr raw \<Rightarrow>
             (case tip_force_legs effort ls of
                Inl e \<Rightarrow> Inl e
              | Inr ls' \<Rightarrow>
                  Inr (l\<lparr>tip_force := clamped (raw - force_offset) min_force max_force\<rparr> # ls')))"

definition tipForceCallback :: "real list \<Rightarrow> StateController \<Rightarrow> error + StateController" where
  "tipForceCallback effort s =
     (case tip_force_legs effort (legs s) of
        Inl e \<Rightarrow> Inl e
      | Inr ls \<Rightarrow> Inr (s\<lparr>legs := ls\<rparr>))"

section \<open>Publishing the desired joint state\<close>

definition publish_joint :: "real \<Rightarrow> Joint \<Rightarrow> Joint" where
  "publish_joint dt j =
     j\<lparr>desired_velocity := (desired_position j - prev_desired_position j) / dt,
       prev_desired_position := desired_position j\<rparr>"

definition publishDesiredJointState :: "StateController \<Rightarrow> StateController" where
  "publishDesiredJointState s =
     emit Interface_publish
       (s\<lparr>legs := map (\<lambda>l. l\<lparr>joint_container :=
                                 map (publish_joint (time_delta (params s))) (joint_container l)\<rparr>)
                      (legs s)\<rparr>)"

section \<open>Runs of the controller\<close>

text \<open>
  After construction the controller is driven by \<^verbatim>\<open>init\<close>, by the tick
  (\<^verbatim>\<open>loop\<close> followed by \<^verbatim>\<open>publishDesiredJointState\<close>) and by the subscriber
  callbacks. An operation is a call of one of the public methods that write a member of
  the controller: these, the initialisation functions \<^verbatim>\<open>initParameters\<close> and
  \<^verbatim>\<open>initGaitParameters\<close>, and the parts of the tick, which the class declares
  public as well. The remaining public methods are the getters and the debugging
  publishers, which only read the state, and \<^verbatim>\<open>initModel\<close> and
  \<^verbatim>\<open>resetDebug\<close>, which forward to \<^verbatim>\<open>Model::initLegs\<close> and
  \<^verbatim>\<open>DebugOutput::reset\<close> outside the source tree.
\<close>

datatype operation =
    Op_init
  | Op_loop Env
  | Op_publishDesiredJointState
  | Op_initParameters Env
  | Op_initGaitParameters Env GaitDesignation
  | Op_impedanceControl Env
  | Op_transitionSystemState Env
  | Op_runningState Env
  | Op_adjustParameter Env
  | Op_changeGait Env
  | Op_legStateToggle Env
  | Op_bodyVelocityInput Vector2d real
  | Op_primaryTipVelocityInput Vector3d
  | Op_secondaryTipVelocityInput Vector3d
  | Op_bodyPoseInput
  | Op_systemState SystemState
  | Op_gaitSelection GaitDesignation
  | Op_posingMode PosingMode
  | Op_cruiseControl CruiseControlMode
  | Op_autoNavigation AutoNavigationMode
  | Op_parameterSelection ParameterSelection
  | Op_parameterAdjust int
  | Op_primaryLegSelection LegDesignation
  | Op_secondaryLegSelection LegDesignation
  | Op_primaryLegState LegState
  | Op_secondaryLegState LegState
  | Op_poseReset PoseResetMode
  | Op_imu
  | Op_jointStates Env JointStateMsg
  | Op_tipForce "real list"

fun step :: "operation \<Rightarrow> StateController \<Rightarrow> error + StateController" where
  "step Op_init s = Inr (init s)"
| "step (Op_loop env) s = loop env s"
| "step Op_publishDesiredJointState s = Inr (publishDesiredJointState s)"
| "step (Op_initParameters env) s = Inr (initParameters env s)"
| "step (Op_initGaitParameters env g) s = Inr (s\<lparr>params := initGaitParameters env g (params s)\<rparr>)"
| "step (Op_impedanceControl env) s = Inr (impedanceControl env s)"
| "step (Op_transitionSystemState env) s = Inr (transitionSystemState env s)"
| "step (Op_runningState env) s = runningState env s"
| "step (Op_adjustParameter env) s = adjustParameter env s"
| "step (Op_changeGait env) s = Inr (changeGait env s)"
| "step (Op_legStateToggle env) s = legStateToggle env s"
| "step (Op_bodyVelocityInput v w) s = Inr (bodyVelocityInputCallback v w s)"
| "step (Op_primaryTipVelocityInput v) s = Inr (primaryTipVelocityInputCallback v s)"
| "step (Op_secondaryTipVelocityInput v) s = Inr (secondaryTipVelocityInputCallback v s)"
| "step Op_bodyPoseInput s = Inr (bodyPoseInputCallback s)"
| "step (Op_systemState x) s = Inr (systemStateCallback x s)"
| "step (Op_gaitSelection x) s = Inr (gaitSelectionCallback x s)"
| "step (Op_posingMode x) s = Inr (posingModeCallback x s)"
| "step (Op_cruiseControl x) s = Inr (cruiseControlCallback x s)"
| "step (Op_autoNavigation x) s = Inr (autoNavigationCallback x s)"
| "step (Op_parameterSelection x) s = parameterSelectionCallback x s"
| "step (Op_parameterAdjust x) s = parameterAdjustCallback x s"
| "step (Op_primaryLegSelection x) s = primaryLegSelectionCallback x s"
| "step (Op_secondaryLegSelection x) s = secondaryLegSelectionCallback x s"
| "step (Op_primaryLegState x) s = Inr (primaryLegStateCallback x s)"
| "step (Op_secondaryLegState x) s = Inr (secondaryLegStateCallback x s)"
| "step (Op_poseReset x) s = Inr (poseResetCallback x s)"
| "step Op_imu s = Inr (imuCallback s)"
| "step (Op_jointStates env m) s = jointStatesCallback env m s"
| "step (Op_tipForce effort) s = tipForceCallback effort s"

text \<open>A run stops at the first operation that faults.\<close>

fun run :: "operation list \<Rightarrow> StateController \<Rightarrow> error + StateController" where
  "run [] s = Inr s"
| "run (x # xs) s = (case step x s of Inl e \<Rightarrow> Inl e | Inr s' \<Rightarrow> run xs s')"

section \<open>Observations and concrete configurations\<close>

text \<open>What a run leaves in one field of the controller, or the fault that stopped it.\<close>

definition observe :: "(StateController \<Rightarrow> 'a) \<Rightarrow> error + StateController \<Rightarrow> error + 'a" where
  "observe f r = (case r of Inl e \<Rightarrow> Inl e | Inr s \<Rightarrow> Inr (f s))"

text \<open>The calls one tick makes, starting from an empty trace.\<close>

definition tick_events :: "Env \<Rightarrow> StateController \<Rightarrow> event list" where
  "tick_events env s = (case loop env (s\<lparr>trace := []\<rparr>) of Inl e \<Rightarrow> [] | Inr s' \<Rightarrow> trace s')"

text \<open>
  A hexapod with three joints per leg. Every leg has the same joint positions; the
  packed position of every joint is 0.
\<close>

definition example_joint :: "real \<Rightarrow> Joint" where
  "example_joint pos =
     \<lparr>joint_name = ''joint'', position_offset = 0, current_position = pos,
      current_velocity = 0, current_effort = 0, packed_position = 0,
      desired_position = 0, prev_desired_position = 0, desired_velocity = 0\<rparr>"

definition example_leg :: "real list \<Rightarrow> nat \<Rightarrow> Leg" where
  "example_leg positions i =
     \<lparr>id_number = i, leg_state = WALKING, joint_container = map example_joint positions,
      poser_tip_position = (0, 0, 0), delta_z = 0, tip_force = 0,
      desired_tip_position = (0, 0, 0)\<rparr>"

definition example_hexapod :: "real list \<Rightarrow> Leg list" where
  "example_hexapod positions = map (example_leg positions) [0, 1, 2, 3, 4, 5]"

definition example_adjustable :: AdjustableParameter where
  "example_adjustable =
     \<lparr>current_value = 1, default_value = 1, min_value = 1 / 10, max_value = 3,
      adjust_step = 1 / 10\<rparr>"

definition example_params :: "bool \<Rightarrow> Parameters" where
  "example_params startup =
     \<lparr>time_delta = 1 / 50, start_up_sequence = startup, impedance_control = True,
      dynamic_stiffness = False, use_joint_effort = False, force_cruise_velocity = False,
      param_linear_cruise_velocity = (0, 0), param_angular_cruise_velocity = 0,
      max_linear_acceleration = 1 / 10, max_angular_acceleration = 1 / 10,
      gait_type = ''tripod_gait'', adjustable = (\<lambda>m. example_adjustable),
      param_map = initParameters_map\<rparr>"

text \<open>
  Collaborators whose choreographies are still in progress, and collaborators that
  report every choreography complete.
\<close>

definition env_in_progress :: Env where
  "env_in_progress =
     \<lparr>directStartup = 1 / 2, unpackLegs = False, packLegs = False, startUpSequence = False,
      shutDownSequence = False, stepToNewStance = 1 / 2, poseForLegManipulation = 1 / 2,
      updateImpedance = (\<lambda>l. 1 / 100), updateWalk = STOPPED,
      updateStance = (\<lambda>l. (0, 0, - 1 / 5)), server_gait_type = ''tripod_gait'',
      UNASSIGNED_VALUE = 10000000000, getJointByIDName = (\<lambda>l n. Some 0),
      server_parameters = example_params False\<rparr>"

definition env_complete :: Env where
  "env_complete =
     env_in_progress
       \<lparr>directStartup := 1, unpackLegs := True, packLegs := True, startUpSequence := True,
        shutDownSequence := True, stepToNewStance := 1, poseForLegManipulation := 1\<rparr>"

text \<open>
  Bring-up: a first command while waiting for the user, \<^verbatim>\<open>init\<close>, and the command
  \<open>RUNNING\<close>; the controller is then in \<open>UNKNOWN\<close> with a transition pending.
\<close>

definition bring_up :: "operation list" where
  "bring_up = [Op_systemState RUNNING, Op_init, Op_systemState RUNNING]"

section \<open>Stages, observations and scenarios\<close>

subsection \<open>Pipeline stages\<close>

text \<open>The four stages of the pipeline, and the stage a call belongs to.\<close>

datatype Stage = Walk | Pose | Impedance | IK

fun stage_of :: "event \<Rightarrow> Stage option" where
  "stage_of (Walker_updateWalk v w) = Some Walk"
| "stage_of (Walker_updateManual p pv q qv) = Some Walk"
| "stage_of Poser_updateStance = Some Pose"
| "stage_of Impedance_updateStiffness_walker = Some Impedance"
| "stage_of (Impedance_updateImpedance i) = Some Impedance"
| "stage_of (Leg_applyIK i tip) = Some IK"
| "stage_of e = None"

definition stage_events :: "event list \<Rightarrow> Stage list" where
  "stage_events tr = List.map_filter stage_of tr"

text \<open>The order the specification gives: Walk, Pose, Impedance, IK.\<close>

fun spec_order :: "Stage \<Rightarrow> nat" where
  "spec_order Walk = 0"
| "spec_order Pose = 1"
| "spec_order Impedance = 2"
| "spec_order IK = 3"

text \<open>The order of the calls in \<^verbatim>\<open>loop\<close>: Impedance, Walk, Pose, IK.\<close>

fun loop_order :: "Stage \<Rightarrow> nat" where
  "loop_order Impedance = 0"
| "loop_order Walk = 1"
| "loop_order Pose = 2"
| "loop_order IK = 3"

text \<open>Calls that belong to no pipeline stage.\<close>

definition stage_free :: "event list \<Rightarrow> bool" where
  "stage_free evs = (stage_events evs = [])"

text \<open>A step that appends only calls outside the pipeline stages.\<close>

definition quiet :: "StateController \<Rightarrow> StateController \<Rightarrow> bool" where
  "quiet s s' = (\<exists>evs. trace s' = trace s @ evs \<and> stage_free evs)"

text \<open>
  The calls of the four-stage pipeline of \<^verbatim>\<open>runningState\<close>: \<^verbatim>\<open>updateWalk\<close>,
  \<^verbatim>\<open>updateManual\<close>, \<^verbatim>\<open>updateStance\<close> and \<^verbatim>\<open>applyIK\<close>.
\<close>

fun pipeline_call :: "event \<Rightarrow> bool" where
  "pipeline_call (Walker_updateWalk v w) = True"
| "pipeline_call (Walker_updateManual p pv q qv) = True"
| "pipeline_call Poser_updateStance = True"
| "pipeline_call (Leg_applyIK i tip) = True"
| "pipeline_call e = False"

fun applyIK_call :: "event \<Rightarrow> bool" where
  "applyIK_call (Leg_applyIK i tip) = True"
| "applyIK_call e = False"

text \<open>The calls made between an earlier and a later state of a run.\<close>

definition calls_since :: "StateController \<Rightarrow> StateController \<Rightarrow> event list" where
  "calls_since s s' = drop (length (trace s)) (trace s')"

text \<open>
  The state in which \<^verbatim>\<open>loop\<close> enters the state machine: unless the system state is
  \<open>UNKNOWN\<close>, \<^verbatim>\<open>updateCurrentPose\<close> has been called and, if impedance control
  is enabled, \<^verbatim>\<open>impedanceControl\<close> has run.
\<close>

definition before_state_machine :: "Env \<Rightarrow> StateController \<Rightarrow> StateController" where
  "before_state_machine env s =
     (if system_state s \<noteq> UNKNOWN then
        (let s0 = emit Poser_updateCurrentPose s
         in if impedance_control (params s0) then impedanceControl env s0 else s0)
      else s)"

text \<open>
  The first operand of the condition that guards the pipeline: a gait change, a parameter
  adjustment or a leg state toggle has been requested and is not yet complete.
\<close>

definition action_pending :: "StateController \<Rightarrow> bool" where
  "action_pending s =
     (gait_change_flag s \<or> parameter_adjust_flag s
      \<or> toggle_primary_leg_state s \<or> toggle_secondary_leg_state s)"

text \<open>
  The input of inverse kinematics in the words of the specification: the posed tip
  position, with \<^verbatim>\<open>delta_z\<close> of the leg subtracted from its z component unless the
  leg is \<open>MANUAL\<close>.
\<close>

definition posed_tip_less_delta_z :: "Vector3d \<Rightarrow> Leg \<Rightarrow> Vector3d" where
  "posed_tip_less_delta_z posed l =
     (if leg_state l \<noteq> MANUAL
      then (fst posed, fst (snd posed), snd (snd posed) - delta_z l)
      else posed)"

subsection \<open>Observations\<close>

text \<open>The state a run ends in; the starting state when the run faults.\<close>

definition state_after :: "operation list \<Rightarrow> StateController \<Rightarrow> StateController" where
  "state_after xs s = (case run xs s of Inl e \<Rightarrow> s | Inr s' \<Rightarrow> s')"

text \<open>Whether a call occurs in the trace.\<close>

definition called :: "event \<Rightarrow> StateController \<Rightarrow> bool" where
  "called e s = (e \<in> set (trace s))"

definition leg_states :: "StateController \<Rightarrow> LegState list" where
  "leg_states s = map leg_state (legs s)"

text \<open>The legs in a manual-associated state, and their number.\<close>

definition manual_associated :: "StateController \<Rightarrow> Leg list" where
  "manual_associated s =
     filter (\<lambda>l. leg_state l \<in> {MANUAL, WALKING_TO_MANUAL, MANUAL_TO_WALKING}) (legs s)"

definition manual_associated_count :: "StateController \<Rightarrow> int" where
  "manual_associated_count s = int (length (manual_associated s))"

text \<open>The current value of an adjustable member, and the gait type.\<close>

definition adjusted_value :: "AdjustableMember \<Rightarrow> StateController \<Rightarrow> real" where
  "adjusted_value p s = current_value (adjustable (params s) p)"




subsection \<open>Scenarios without the start-up sequence\<close>

text \<open>
  A hexapod none of whose joints is near its packed position, with
  \<^verbatim>\<open>start_up_sequence\<close> false. \<open>UNKNOWN\<close> resolves to \<open>OFF\<close>; in the next tick
  \<^verbatim>\<open>directStartup\<close> reports completion and the robot is \<open>RUNNING\<close>.
\<close>

definition unpacked_hexapod :: "Leg list" where
  "unpacked_hexapod = example_hexapod [3 / 2, 3 / 2, 3 / 2]"

definition cold_start :: StateController where
  "cold_start = constructed (example_params False) unpacked_hexapod"

definition reach_off :: "operation list" where
  "reach_off = bring_up @ [Op_loop env_in_progress]"

definition reach_running :: "operation list" where
  "reach_running = reach_off @ [Op_loop env_complete]"

text \<open>The robot stands in \<open>RUNNING\<close> with no request pending.\<close>

definition running_idle :: StateController where
  "running_idle = state_after reach_running cold_start"

text \<open>
  Direct start-up is under way (state \<open>OFF\<close>, target \<open>RUNNING\<close>, flag raised) when
  the user commands \<open>OFF\<close>.
\<close>

definition direct_startup_pending :: StateController where
  "direct_startup_pending = state_after reach_off cold_start"

definition cancel_direct_startup :: "operation list" where
  "cancel_direct_startup = reach_off @ [Op_systemState OFF]"

definition startup_cancelled :: StateController where
  "startup_cancelled = state_after cancel_direct_startup cold_start"

text \<open>
  Three more runs after which a command has made the target equal to the current state
  while a transition was pending: in \<open>RUNNING\<close> during the shut-down sequence, in
  \<open>READY\<close> and in \<open>PACKED\<close> after the target had been set to \<open>WAITING_FOR_USER\<close>.
\<close>

definition cancel_shutdown :: "operation list" where
  "cancel_shutdown =
     reach_running
       @ [Op_systemState SUSPENDED, Op_loop env_in_progress, Op_systemState RUNNING]"

definition ready_commanded_twice :: "operation list" where
  "ready_commanded_twice =
     reach_running
       @ [Op_systemState WAITING_FOR_USER, Op_loop env_complete, Op_systemState READY]"

definition packed_commanded_twice :: "operation list" where
  "packed_commanded_twice =
     reach_off
       @ [Op_systemState WAITING_FOR_USER, Op_loop env_in_progress, Op_systemState PACKED]"

text \<open>The walker reports \<open>MOVING\<close> after \<^verbatim>\<open>updateWalk\<close>.\<close>

definition env_walking :: Env where
  "env_walking = env_in_progress\<lparr>updateWalk := MOVING\<rparr>"

text \<open>
  A velocity command sets the robot walking; then another gait is selected. The trace
  starts afresh.
\<close>

definition gait_change_while_walking :: "operation list" where
  "gait_change_while_walking =
     reach_running
       @ [Op_bodyVelocityInput (1 / 10, 0) 0, Op_loop env_walking, Op_gaitSelection WAVE_GAIT]"

definition walking_with_gait_request :: StateController where
  "walking_with_gait_request = (state_after gait_change_while_walking cold_start)\<lparr>trace := []\<rparr>"



text \<open>
  The step frequency is selected and an increment is requested; the trace starts
  afresh.
\<close>

definition parameter_request :: "operation list" where
  "parameter_request =
     reach_running @ [Op_parameterSelection STEP_FREQUENCY, Op_parameterAdjust 1]"

definition standing_with_parameter_request :: StateController where
  "standing_with_parameter_request = (state_after parameter_request cold_start)\<lparr>trace := []\<rparr>"

text \<open>
  The adjustment runs to its end: one tick sets the value, one tick steps towards the new
  stance, and in the last tick \<^verbatim>\<open>stepToNewStance\<close> reports progress 1.
\<close>

definition parameter_adjustment :: "operation list" where
  "parameter_adjustment =
     parameter_request @ [Op_loop env_in_progress, Op_loop env_in_progress, Op_loop env_complete]"

text \<open>Leg 0 is selected as primary leg and taken over manually.\<close>

definition manual_takeover :: "operation list" where
  "manual_takeover =
     reach_running
       @ [Op_primaryLegSelection (Some 0), Op_primaryLegState MANUAL,
          Op_loop env_in_progress, Op_loop env_complete]"

definition manual_leg_taken :: StateController where
  "manual_leg_taken = state_after manual_takeover cold_start"

text \<open>
  The primary leg is toggled to manual; while the toggle is in progress the primary
  selection moves on to leg 1 and then to leg 2.
\<close>

definition three_takeovers :: "operation list" where
  "three_takeovers =
     reach_running
       @ [Op_primaryLegSelection (Some 0), Op_primaryLegState MANUAL, Op_loop env_in_progress,
          Op_primaryLegSelection (Some 1), Op_loop env_in_progress,
          Op_primaryLegSelection (Some 2), Op_loop env_in_progress]"

text \<open>Each of the three transitions is then completed in turn.\<close>

definition three_completions :: "operation list" where
  "three_completions =
     three_takeovers
       @ [Op_loop env_complete,
          Op_primaryLegSelection (Some 1), Op_primaryLegState WALKING, Op_loop env_complete,
          Op_primaryLegSelection (Some 0), Op_primaryLegState MANUAL, Op_loop env_complete]"

subsection \<open>A scenario with the start-up sequence\<close>

text \<open>
  All joints are packed and \<^verbatim>\<open>start_up_sequence\<close> is true: the first command and
  the command after \<^verbatim>\<open>init\<close> are \<open>PACKED\<close>, one tick resolves \<open>UNKNOWN\<close>.
\<close>

definition sequenced_start :: StateController where
  "sequenced_start = constructed (example_params True) (example_hexapod [0, 0, 0])"

definition bring_up_packed :: "operation list" where
  "bring_up_packed =
     [Op_systemState PACKED, Op_init, Op_systemState PACKED, Op_loop env_in_progress]"

section \<open>Runs\<close>

lemma run_append:
  "run (xs @ ys) s = (case run xs s of Inl e \<Rightarrow> Inl e | Inr s' \<Rightarrow> run ys s')"
  by (induction xs arbitrary: s) (auto split: sum.splits)

lemma bring_up_state:
  "run bring_up (constructed (example_params startup) ls) =
     Inr ((constructed (example_params startup) ls)
            \<lparr>gait_selection := TRIPOD_GAIT, system_state := UNKNOWN,
             new_system_state := RUNNING, transition_state_flag := True\<rparr>)"
  by (simp add: bring_up_def systemStateCallback_def init_def constructed_def
      example_params_def Let_def)

text \<open>None of the scenario runs faults.\<close>

lemma scenarios_reach_their_states:
  "observe system_state (run reach_off cold_start) = Inr OFF
   \<and> observe system_state (run reach_running cold_start) = Inr RUNNING
   \<and> observe walk_state (run reach_running cold_start) = Inr STOPPED
   \<and> observe system_state (run gait_change_while_walking cold_start) = Inr RUNNING
   \<and> observe system_state (run parameter_request cold_start) = Inr RUNNING
   \<and> observe system_state (run manual_takeover cold_start) = Inr RUNNING
   \<and> observe system_state (run (reach_running @ [Op_gaitSelection WAVE_GAIT]) cold_start)
       = Inr RUNNING"
  by code_simp

section \<open>UNKNOWN resolution\<close>

lemma joints_within_tolerance:
  "\<forall>j \<in> set js. \<bar>current_position j - packed_position j\<bar> < joint_tolerance \<Longrightarrow>
   sum_list (map (\<lambda>j. if \<bar>current_position j - packed_position j\<bar> < joint_tolerance
                        then 1 else 0) js) = int (length js)"
  by (induction js) auto

text \<open>
  When every joint of every leg is within the tolerance, the counter is the number of
  joints; the handler compares it with the number of legs.
\<close>

lemma check_packed_all_joints:
  assumes "\<forall>l \<in> set ls. \<forall>j \<in> set (joint_container l).
             \<bar>current_position j - packed_position j\<bar> < joint_tolerance"
  shows "check_packed ls = sum_list (map (\<lambda>l. int (length (joint_container l))) ls)"
  using assms
  by (induction ls) (simp_all add: check_packed_def joints_within_tolerance)

lemma resolve_unknown_without_start_up_sequence:
  assumes "\<not> start_up_sequence (params s)"
  shows "resolve_unknown s =
     (if check_packed (legs s) = getLegCount (legs s)
      then emit Ros_shutdown (emit Ros_fatal s)
      else (emit Ros_warn s)\<lparr>system_state := OFF\<rparr>)"
  using assms by (simp add: resolve_unknown_def)

lemma check_packed_all: "check_packed (example_hexapod [0, 0, 0]) = 18"
  by (simp add: check_packed_def example_hexapod_def example_leg_def example_joint_def
      joint_tolerance_def)

lemma check_packed_some: "check_packed (example_hexapod [0, 3 / 2, 3 / 2]) = 6"
  by (simp add: check_packed_def example_hexapod_def example_leg_def example_joint_def
      joint_tolerance_def)

lemma leg_count_hexapod: "getLegCount (example_hexapod ps) = 6"
  by (simp add: getLegCount_def example_hexapod_def)

text \<open>
  Claim C1. On \<open>UNKNOWN\<close> the handler is meant to treat the robot as packed when every
  joint of every leg is within 0.01 rad of its packed position. The code compares the
  number of joints within tolerance with the number of legs. On a hexapod with three
  joints per leg and all 18 joints packed the counter is 18, not 6: with
  \<^verbatim>\<open>start_up_sequence\<close> false the handler warns and enters \<open>OFF\<close> instead of
  raising the fatal error. With one joint per leg packed and the other two 1.5 rad away
  the counter is 6: the handler raises the fatal error and requests shutdown although
  the robot is not packed.
\<close>

theorem C1_packed_check_counts_joints_against_legs:
  "check_packed (example_hexapod [0, 0, 0]) = 18
   \<and> getLegCount (example_hexapod [0, 0, 0]) = 6
   \<and> observe system_state (run (bring_up @ [Op_loop env_in_progress])
        (constructed (example_params False) (example_hexapod [0, 0, 0]))) = Inr OFF
   \<and> observe trace (run (bring_up @ [Op_loop env_in_progress])
        (constructed (example_params False) (example_hexapod [0, 0, 0]))) = Inr [Ros_warn]
   \<and> check_packed (example_hexapod [0, 3 / 2, 3 / 2]) = 6
   \<and> observe system_state (run (bring_up @ [Op_loop env_in_progress])
        (constructed (example_params False) (example_hexapod [0, 3 / 2, 3 / 2]))) = Inr UNKNOWN
   \<and> observe trace (run (bring_up @ [Op_loop env_in_progress])
        (constructed (example_params False) (example_hexapod [0, 3 / 2, 3 / 2])))
       = Inr [Ros_fatal, Ros_shutdown]"
  unfolding run_append bring_up_state
  by (simp add: check_packed_all check_packed_some leg_count_hexapod
      observe_def loop_def transitionSystemState_def transition_dispatch_def resolve_unknown_def
      emit_def constructed_def example_params_def)

section \<open>Effects of the parts of a tick\<close>

subsection \<open>The loops over the legs\<close>

lemma impedance_legs_events:
  "snd (impedance_legs env ls) =
     map (\<lambda>l. Impedance_updateImpedance (id_number l)) (filter (\<lambda>l. leg_state l = WALKING) ls)"
  by (induction ls) (auto split: prod.splits)

lemma impedance_legs_legs:
  "fst (impedance_legs env ls) =
     map (\<lambda>l. if leg_state l = WALKING then l\<lparr>delta_z := updateImpedance env l\<rparr> else l) ls"
  by (induction ls) (auto split: prod.splits)

lemma ik_legs_legs:
  "fst (ik_legs ls) = map (\<lambda>l. l\<lparr>desired_tip_position := target_tip_position l\<rparr>) ls"
  by (induction ls) (auto simp: Let_def split: prod.splits)

lemma ik_legs_events:
  "snd (ik_legs ls) = map (\<lambda>l. Leg_applyIK (id_number l) (target_tip_position l)) ls"
  by (induction ls) (auto simp: Let_def split: prod.splits)

subsection \<open>Fields that a part of the tick leaves unchanged\<close>

lemma emit_fields [simp]:
  "system_state (emit e s) = system_state s"
  "new_system_state (emit e s) = new_system_state s"
  "transition_state_flag (emit e s) = transition_state_flag s"
  "params (emit e s) = params s"
  "walk_state (emit e s) = walk_state s"
  "legs (emit e s) = legs s"
  "trace (emit e s) = trace s @ [e]"
  by (simp_all add: emit_def)

lemma setLegState_fields [simp]:
  "system_state (setLegState i st s) = system_state s"
  "new_system_state (setLegState i st s) = new_system_state s"
  "transition_state_flag (setLegState i st s) = transition_state_flag s"
  "params (setLegState i st s) = params s"
  "walk_state (setLegState i st s) = walk_state s"
  "trace (setLegState i st s) = trace s"
  by (simp_all add: setLegState_def)

lemma impedanceControl_eq:
  "impedanceControl env s =
     s\<lparr>legs := fst (impedance_legs env (legs s)),
       trace := trace s
         @ (if walk_state s \<noteq> STOPPED then [Impedance_updateStiffness_walker] else [])
         @ snd (impedance_legs env (legs s))\<rparr>"
  by (simp add: impedanceControl_def Let_def emit_def split: prod.splits)

lemma pipeline_frame:
  "system_state (pipeline env s) = system_state s
   \<and> new_system_state (pipeline env s) = new_system_state s
   \<and> transition_state_flag (pipeline env s) = transition_state_flag s
   \<and> params (pipeline env s) = params s
   \<and> gait_change_flag (pipeline env s) = gait_change_flag s
   \<and> parameter_adjust_flag (pipeline env s) = parameter_adjust_flag s
   \<and> toggle_primary_leg_state (pipeline env s) = toggle_primary_leg_state s
   \<and> toggle_secondary_leg_state (pipeline env s) = toggle_secondary_leg_state s"
  by (simp add: pipeline_def Let_def emit_def split: prod.splits)

lemma changeGait_frame:
  "system_state (changeGait env s) = system_state s
   \<and> new_system_state (changeGait env s) = new_system_state s
   \<and> transition_state_flag (changeGait env s) = transition_state_flag s
   \<and> walk_state (changeGait env s) = walk_state s"
  by (simp add: changeGait_def)

lemma adjustParameter_frame:
  "adjustParameter env s = Inr s' \<Longrightarrow>
     system_state s' = system_state s
     \<and> new_system_state s' = new_system_state s
     \<and> transition_state_flag s' = transition_state_flag s
     \<and> walk_state s' = walk_state s"
  by (auto simp: adjustParameter_def Let_def split: if_splits option.splits)

lemma leg_transition_frame:
  "system_state (leg_transition env l f d s) = system_state s
   \<and> new_system_state (leg_transition env l f d s) = new_system_state s
   \<and> transition_state_flag (leg_transition env l f d s) = transition_state_flag s
   \<and> params (leg_transition env l f d s) = params s
   \<and> walk_state (leg_transition env l f d s) = walk_state s"
  by (simp add: leg_transition_def Let_def)

lemma legStateToggle_frame:
  "legStateToggle env s = Inr s' \<Longrightarrow>
     system_state s' = system_state s
     \<and> new_system_state s' = new_system_state s
     \<and> transition_state_flag s' = transition_state_flag s
     \<and> params s' = params s
     \<and> walk_state s' = walk_state s"
  by (auto simp: legStateToggle_def Let_def leg_transition_frame split: if_splits option.splits)

lemma running_action_frame:
  "running_action env s = Inr s' \<Longrightarrow>
     system_state s' = system_state s
     \<and> new_system_state s' = new_system_state s
     \<and> transition_state_flag s' = transition_state_flag s
     \<and> walk_state s' = walk_state s"
  unfolding running_action_def
  using changeGait_frame [of env s] adjustParameter_frame [of env s s']
    legStateToggle_frame [of env s s']
  by (auto split: if_splits)

lemma runningState_frame:
  "runningState env s = Inr s' \<Longrightarrow>
     system_state s' = system_state s
     \<and> new_system_state s' = new_system_state s
     \<and> transition_state_flag s' = transition_state_flag s"
  unfolding runningState_def
  using running_action_frame [of env s] pipeline_frame
  by (auto split: sum.splits if_splits)

subsection \<open>What each part of a tick appends to the trace\<close>

lemma stage_events_Nil [simp]: "stage_events [] = []"
  by (simp add: stage_events_def map_filter_def)

lemma stage_events_append: "stage_events (xs @ ys) = stage_events xs @ stage_events ys"
  by (simp add: stage_events_def map_filter_def)

lemma stage_events_impedance:
  "set (stage_events (snd (impedance_legs env ls))) \<subseteq> {Impedance}"
  by (auto simp: impedance_legs_events stage_events_def map_filter_def)

lemma stage_events_ik: "set (stage_events (snd (ik_legs ls))) \<subseteq> {IK}"
  by (auto simp: ik_legs_events stage_events_def map_filter_def)

lemma stage_free_simps [simp]:
  "stage_free []"
  "stage_free (xs @ ys) = (stage_free xs \<and> stage_free ys)"
  "stage_free (e # es) = (stage_of e = None \<and> stage_free es)"
  by (auto simp: stage_free_def stage_events_def map_filter_def)

lemma stage_free_mem: "stage_free evs \<Longrightarrow> e \<in> set evs \<Longrightarrow> stage_of e = None"
  by (induction evs) auto

lemma impedanceControl_trace:
  "trace (impedanceControl env s) =
     trace s @ (if walk_state s \<noteq> STOPPED then [Impedance_updateStiffness_walker] else [])
       @ snd (impedance_legs env (legs s))"
  by (simp add: impedanceControl_def Let_def split: prod.splits)

lemma pipeline_trace:
  "trace (pipeline env s) =
     trace s @ [Walker_updateWalk (linear_velocity_input s) (angular_velocity_input s),
                Walker_updateManual (primary_leg_selection s) (primary_tip_velocity_input s)
                  (secondary_leg_selection s) (secondary_tip_velocity_input s),
                Poser_updateStance]
       @ snd (ik_legs (map (\<lambda>l. l\<lparr>poser_tip_position := updateStance env l\<rparr>) (legs s)))"
  by (simp add: pipeline_def Let_def emit_def split: prod.splits)

lemma pipeline_legs:
  "legs (pipeline env s) =
     fst (ik_legs (map (\<lambda>l. l\<lparr>poser_tip_position := updateStance env l\<rparr>) (legs s)))"
  by (simp add: pipeline_def Let_def emit_def split: prod.splits)

lemma quiet_same: "trace s' = trace s \<Longrightarrow> quiet s s'"
  by (simp add: quiet_def)

lemma quiet_fields: "quiet s s1 \<Longrightarrow> trace s2 = trace s1 \<Longrightarrow> quiet s s2"
  by (simp add: quiet_def)

lemma quiet_trans: "quiet s s1 \<Longrightarrow> quiet s1 s2 \<Longrightarrow> quiet s s2"
  by (auto simp: quiet_def)

lemma quiet_emit: "stage_of e = None \<Longrightarrow> trace s1 = trace s \<Longrightarrow> quiet s (emit e s1)"
  by (simp add: quiet_def)

lemma quiet_stage_events: "quiet s s' \<Longrightarrow> stage_events (trace s') = stage_events (trace s)"
  by (auto simp: quiet_def stage_events_append stage_free_def)

lemma quiet_no_updateStance:
  "quiet s s' \<Longrightarrow> trace s = [] \<Longrightarrow> Poser_updateStance \<notin> set (trace s')"
  using stage_free_mem by (fastforce simp: quiet_def)

lemma transition_dispatch_quiet: "quiet s (transition_dispatch env s)"
  by (simp add: transition_dispatch_def resolve_unknown_def Let_def quiet_def)

lemma transitionSystemState_quiet: "quiet s (transitionSystemState env s)"
  using transition_dispatch_quiet [of s env]
  by (simp add: transitionSystemState_def Let_def quiet_def)

lemma changeGait_quiet: "quiet s (changeGait env s)"
  by (simp add: changeGait_def quiet_def)

lemma adjustParameter_quiet: "adjustParameter env s = Inr s' \<Longrightarrow> quiet s s'"
  by (auto simp: adjustParameter_def Let_def quiet_def split: if_splits option.splits)

lemma leg_transition_quiet: "quiet s (leg_transition env l f d s)"
  by (simp add: leg_transition_def Let_def quiet_def)

lemma legStateToggle_quiet: "legStateToggle env s = Inr s' \<Longrightarrow> quiet s s'"
proof -
  assume a: "legStateToggle env s = Inr s'"
  have e: "quiet s (emit Poser_calculateDefaultPose s)"
    by (simp add: quiet_emit)
  have t: "quiet s (leg_transition env l f d (emit Poser_calculateDefaultPose s))" for l f d
    using quiet_trans [OF e leg_transition_quiet] .
  from a show ?thesis
    by (auto simp: legStateToggle_def Let_def t split: if_splits option.splits
        intro: quiet_same quiet_fields [OF e])
qed

lemma running_action_quiet: "running_action env s = Inr s' \<Longrightarrow> quiet s s'"
  unfolding running_action_def
  using changeGait_quiet [of s env] adjustParameter_quiet [of env s s']
    legStateToggle_quiet [of env s s']
  by (auto simp: quiet_same split: if_splits)

lemma loop_prefix:
  "\<exists>s1 evs. loop env s = (if transition_state_flag s then Inr (transitionSystemState env s1)
                           else if system_state s = RUNNING then runningState env s1
                           else Inr s1)
      \<and> trace s1 = trace s @ evs
      \<and> system_state s1 = system_state s
      \<and> new_system_state s1 = new_system_state s
      \<and> transition_state_flag s1 = transition_state_flag s"
proof -
  define s1 where "s1 = (if system_state s \<noteq> UNKNOWN then
                  (let u = emit Poser_updateCurrentPose s
                   in if impedance_control (params u) then impedanceControl env u else u)
                else s)"
  have f: "system_state s1 = system_state s \<and> new_system_state s1 = new_system_state s
           \<and> transition_state_flag s1 = transition_state_flag s"
    by (simp add: s1_def Let_def impedanceControl_eq emit_def)
  have "loop env s = (if transition_state_flag s1 then Inr (transitionSystemState env s1)
         else if system_state s1 = RUNNING then runningState env s1
         else Inr s1)"
    by (simp add: loop_def s1_def Let_def)
  moreover have "\<exists>evs. trace s1 = trace s @ evs"
    by (simp add: s1_def Let_def impedanceControl_eq emit_def)
  ultimately show ?thesis using f by auto
qed

lemma pipeline_legs_map:
  "legs (pipeline env s) =
     map (\<lambda>l. (l\<lparr>poser_tip_position := updateStance env l\<rparr>)
                 \<lparr>desired_tip_position :=
                    target_tip_position (l\<lparr>poser_tip_position := updateStance env l\<rparr>)\<rparr>)
         (legs s)"
  by (simp add: pipeline_legs ik_legs_legs)

lemma pipeline_ik_events:
  "snd (ik_legs (map (\<lambda>l. l\<lparr>poser_tip_position := updateStance env l\<rparr>) (legs s)))
     = map (\<lambda>l. Leg_applyIK (id_number l) (desired_tip_position l)) (legs (pipeline env s))"
  by (simp add: pipeline_legs_map ik_legs_events target_tip_position_def)

subsection \<open>The tick in the running state\<close>

lemma loop_parts:
  "loop env s =
     (if transition_state_flag (before_state_machine env s)
      then Inr (transitionSystemState env (before_state_machine env s))
      else if system_state (before_state_machine env s) = RUNNING
      then runningState env (before_state_machine env s)
      else Inr (before_state_machine env s))"
  by (simp add: loop_def before_state_machine_def Let_def)

lemma before_state_machine_frame:
  "system_state (before_state_machine env s) = system_state s
   \<and> transition_state_flag (before_state_machine env s) = transition_state_flag s
   \<and> walk_state (before_state_machine env s) = walk_state s
   \<and> params (before_state_machine env s) = params s
   \<and> action_pending (before_state_machine env s) = action_pending s"
  by (simp add: before_state_machine_def Let_def impedanceControl_eq emit_def action_pending_def)

lemma running_tick:
  assumes "system_state s = RUNNING" and "\<not> transition_state_flag s"
  shows "loop env s = runningState env (before_state_machine env s)"
  using assms before_state_machine_frame [of env s] by (simp add: loop_parts)

lemma before_state_machine_legs:
  assumes "system_state s \<noteq> UNKNOWN"
  shows "legs (before_state_machine env s) =
     map (\<lambda>l. if impedance_control (params s) \<and> leg_state l = WALKING
               then l\<lparr>delta_z := updateImpedance env l\<rparr> else l) (legs s)"
  using assms
  by (simp add: before_state_machine_def Let_def impedanceControl_eq emit_def
      impedance_legs_legs)

lemma pipeline_call_stage: "pipeline_call e \<Longrightarrow> stage_of e \<noteq> None"
  by (cases e) simp_all

lemma stage_free_no_pipeline_call: "stage_free evs \<Longrightarrow> filter pipeline_call evs = []"
  using stage_free_mem pipeline_call_stage by (fastforce simp: filter_empty_conv)

lemma impedance_no_pipeline_call:
  "filter pipeline_call (snd (impedance_legs env ls)) = []"
  by (simp add: impedance_legs_events filter_empty_conv)

lemma before_state_machine_trace:
  "\<exists>pre. trace (before_state_machine env s) = trace s @ pre \<and> filter pipeline_call pre = []"
  by (simp add: before_state_machine_def Let_def impedanceControl_trace
      impedance_no_pipeline_call)

lemma running_action_trace:
  assumes "running_action env s = Inr s1"
  shows "\<exists>evs. trace s1 = trace s @ evs \<and> filter pipeline_call evs = []"
  using running_action_quiet [OF assms] stage_free_no_pipeline_call
  by (auto simp: quiet_def)

lemma pipeline_calls:
  "trace (pipeline env s) =
     trace s @ [Walker_updateWalk (linear_velocity_input s) (angular_velocity_input s),
                Walker_updateManual (primary_leg_selection s) (primary_tip_velocity_input s)
                  (secondary_leg_selection s) (secondary_tip_velocity_input s),
                Poser_updateStance]
       @ map (\<lambda>l. Leg_applyIK (id_number l) (desired_tip_position l)) (legs (pipeline env s))"
  by (simp only: pipeline_trace pipeline_ik_events)

lemma pipeline_inputs:
  "linear_velocity_input (pipeline env s) = linear_velocity_input s
   \<and> angular_velocity_input (pipeline env s) = angular_velocity_input s
   \<and> primary_leg_selection (pipeline env s) = primary_leg_selection s
   \<and> primary_tip_velocity_input (pipeline env s) = primary_tip_velocity_input s
   \<and> secondary_leg_selection (pipeline env s) = secondary_leg_selection s
   \<and> secondary_tip_velocity_input (pipeline env s) = secondary_tip_velocity_input s
   \<and> action_pending (pipeline env s) = action_pending s"
  by (simp add: pipeline_def Let_def emit_def action_pending_def split: prod.splits)

lemma filter_applyIK_map [simp]:
  "filter pipeline_call (map (\<lambda>l. Leg_applyIK (f l) (g l)) ls) = map (\<lambda>l. Leg_applyIK (f l) (g l)) ls"
  "filter applyIK_call (map (\<lambda>l. Leg_applyIK (f l) (g l)) ls) = map (\<lambda>l. Leg_applyIK (f l) (g l)) ls"
  by (induction ls) simp_all

lemma applyIK_is_pipeline_call: "filter pipeline_call evs = [] \<Longrightarrow> filter applyIK_call evs = []"
proof -
  have "applyIK_call e \<Longrightarrow> pipeline_call e" for e by (cases e) simp_all
  then show "filter pipeline_call evs = [] \<Longrightarrow> filter applyIK_call evs = []"
    by (auto simp: filter_empty_conv)
qed

text \<open>
  A tick in the running state: the state machine is entered, the sub-action runs, and the
  pipeline runs if the guard holds of the state the sub-action left.
\<close>

lemma running_tick_cases:
  assumes "system_state s = RUNNING" and "\<not> transition_state_flag s"
    and "running_action env (before_state_machine env s) = Inr s1"
  shows "loop env s = Inr (if pipeline_gate s1 then pipeline env s1 else s1)"
    and "\<exists>evs. trace s1 = trace s @ evs \<and> filter pipeline_call evs = []"
    and "walk_state s1 = walk_state s"
proof -
  show "loop env s = Inr (if pipeline_gate s1 then pipeline env s1 else s1)"
    using assms by (simp add: running_tick runningState_def)
  show "\<exists>evs. trace s1 = trace s @ evs \<and> filter pipeline_call evs = []"
    using before_state_machine_trace [of env s] running_action_trace [OF assms(3)] by auto
  show "walk_state s1 = walk_state s"
    using running_action_frame [OF assms(3)] before_state_machine_frame [of env s] by simp
qed

lemma running_tick_fault:
  assumes "system_state s = RUNNING" and "\<not> transition_state_flag s"
    and "running_action env (before_state_machine env s) = Inl e"
  shows "loop env s = Inl e"
  using assms by (simp add: running_tick runningState_def)

lemma skipped_calls:
  assumes "\<exists>evs. trace s1 = trace s @ evs \<and> filter pipeline_call evs = []"
  shows "filter pipeline_call (calls_since s s1) = []"
  using assms by (auto simp: calls_since_def)

lemma pipeline_calls_since:
  assumes "\<exists>evs. trace s1 = trace s @ evs \<and> filter pipeline_call evs = []"
  shows "filter pipeline_call (calls_since s (pipeline env s1)) =
     [Walker_updateWalk (linear_velocity_input s1) (angular_velocity_input s1),
      Walker_updateManual (primary_leg_selection s1) (primary_tip_velocity_input s1)
        (secondary_leg_selection s1) (secondary_tip_velocity_input s1),
      Poser_updateStance]
       @ map (\<lambda>l. Leg_applyIK (id_number l) (desired_tip_position l)) (legs (pipeline env s1))"
proof -
  from assms obtain evs where e: "trace s1 = trace s @ evs" "filter pipeline_call evs = []"
    by blast
  show ?thesis
    unfolding calls_since_def pipeline_calls e(1)
    by (simp add: e(2))
qed

lemma applyIK_calls_since:
  assumes "\<exists>evs. trace s1 = trace s @ evs \<and> filter pipeline_call evs = []"
  shows "filter applyIK_call (calls_since s (pipeline env s1)) =
       map (\<lambda>l. Leg_applyIK (id_number l) (desired_tip_position l)) (legs (pipeline env s1))"
proof -
  from assms obtain evs where e: "trace s1 = trace s @ evs" "filter pipeline_call evs = []"
    by blast
  show ?thesis
    unfolding calls_since_def pipeline_calls e(1)
    by (simp add: applyIK_is_pipeline_call [OF e(2)])
qed

section \<open>The input of inverse kinematics\<close>

lemma target_is_posed_tip_less_delta_z:
  "target_tip_position (l\<lparr>poser_tip_position := posed\<rparr>) = posed_tip_less_delta_z posed l"
  by (cases posed) (simp add: target_tip_position_def posed_tip_less_delta_z_def)

lemma pipeline_legs_posed:
  "legs (pipeline env s) =
     map (\<lambda>l. l\<lparr>poser_tip_position := updateStance env l,
                 desired_tip_position := posed_tip_less_delta_z (updateStance env l) l\<rparr>)
         (legs s)"
  by (simp add: pipeline_legs_map target_is_posed_tip_less_delta_z)

lemma setLegState_delta_z:
  "map delta_z (legs (setLegState i st s)) = map delta_z (legs s)"
  by (simp add: setLegState_def comp_def)

lemma leg_transition_delta_z:
  "map delta_z (legs (leg_transition env l f d s)) = map delta_z (legs s)"
  by (simp add: leg_transition_def Let_def setLegState_delta_z emit_def)

lemma legStateToggle_delta_z:
  "legStateToggle env s = Inr s' \<Longrightarrow> map delta_z (legs s') = map delta_z (legs s)"
  by (auto simp: legStateToggle_def Let_def leg_transition_delta_z setLegState_delta_z
      split: if_splits option.splits)

lemma adjustParameter_legs:
  "adjustParameter env s = Inr s' \<Longrightarrow> legs s' = legs s"
  by (auto simp: adjustParameter_def Let_def emit_def split: if_splits option.splits)

lemma running_action_delta_z:
  "running_action env s = Inr s' \<Longrightarrow> map delta_z (legs s') = map delta_z (legs s)"
  unfolding running_action_def
  using legStateToggle_delta_z [of env s s'] adjustParameter_legs [of env s s']
  by (auto simp: changeGait_def split: if_splits)

lemma before_state_machine_delta_z:
  assumes "system_state s \<noteq> UNKNOWN"
  shows "map delta_z (legs (before_state_machine env s)) =
     map (\<lambda>l. if impedance_control (params s) \<and> leg_state l = WALKING
               then updateImpedance env l else delta_z l) (legs s)"
  by (simp add: before_state_machine_legs [OF assms] comp_def if_distrib cong: if_cong)

text \<open>
  Claim C5. In a tick in the running state (the system state is \<open>RUNNING\<close> and no
  transition is pending, so that \<^verbatim>\<open>loop\<close> calls \<^verbatim>\<open>runningState\<close>) in which
  the pipeline runs, \<^verbatim>\<open>applyIK\<close> is called once per leg, in container order, and
  the tip position it is handed, which is also stored as the desired tip position of
  the leg, is the tip position \<^verbatim>\<open>updateStance\<close> wrote into the leg's poser in this
  tick, with \<^verbatim>\<open>delta_z\<close> subtracted from its z component when the leg is not
  \<open>MANUAL\<close>, and unchanged when it is \<open>MANUAL\<close>. Leg state and \<^verbatim>\<open>delta_z\<close>
  are those of the leg when the pipeline is entered; the pipeline changes neither, and
  \<^verbatim>\<open>delta_z\<close> is the value the impedance step of this tick left. When the guard
  skips the pipeline, \<^verbatim>\<open>applyIK\<close> is not called; when the sub-action faults, so does
  the tick.
\<close>

theorem C5_ik_input_is_posed_tip_less_delta_z:
  assumes "system_state s = RUNNING" and "\<not> transition_state_flag s"
  shows "case running_action env (before_state_machine env s) of
           Inl e \<Rightarrow> loop env s = Inl e
         | Inr s1 \<Rightarrow>
             map delta_z (legs s1) =
               map (\<lambda>l. if impedance_control (params s) \<and> leg_state l = WALKING
                         then updateImpedance env l else delta_z l) (legs s)
             \<and> (if pipeline_gate s1 then
                  observe legs (loop env s) =
                    Inr (map (\<lambda>l. l\<lparr>poser_tip_position := updateStance env l,
                                     desired_tip_position :=
                                       posed_tip_less_delta_z (updateStance env l) l\<rparr>)
                             (legs s1))
                  \<and> observe (\<lambda>s'. filter applyIK_call (calls_since s s')) (loop env s) =
                      Inr (map (\<lambda>l. Leg_applyIK (id_number l)
                                      (posed_tip_less_delta_z (updateStance env l) l))
                               (legs s1))
                else
                  loop env s = Inr s1 \<and> filter applyIK_call (calls_since s s1) = [])"
proof (cases "running_action env (before_state_machine env s)")
  case (Inl e)
  with running_tick_fault [OF assms] show ?thesis by simp
next
  case (Inr s1)
  note t = running_tick_cases [OF assms Inr]
  have u: "system_state s \<noteq> UNKNOWN" using assms(1) by simp
  have d: "map delta_z (legs s1) =
               map (\<lambda>l. if impedance_control (params s) \<and> leg_state l = WALKING
                         then updateImpedance env l else delta_z l) (legs s)"
    using running_action_delta_z [OF Inr] before_state_machine_delta_z [OF u, of env] by simp
  show ?thesis
  proof (cases "pipeline_gate s1")
    case True
    have l: "loop env s = Inr (pipeline env s1)" using t(1) True by simp
    have "filter applyIK_call (calls_since s (pipeline env s1)) =
            map (\<lambda>l. Leg_applyIK (id_number l) (posed_tip_less_delta_z (updateStance env l) l))
                (legs s1)"
      unfolding applyIK_calls_since [OF t(2)]
      by (simp add: pipeline_legs_posed comp_def)
    with l d True Inr show ?thesis
      by (simp add: observe_def pipeline_legs_posed)
  next
    case False
    have l: "loop env s = Inr s1" using t(1) False by simp
    have "filter applyIK_call (calls_since s s1) = []"
      using applyIK_is_pipeline_call [OF skipped_calls [OF t(2)]] .
    with l d False Inr show ?thesis by simp
  qed
qed

text \<open>
  Witness for C5: the tick of the standing robot whose leg 0 is \<open>MANUAL\<close>. Every leg
  has \<^verbatim>\<open>delta_z\<close> 0.01 and the posed tip (0, 0, -0.2); leg 0 is handed the posed tip,
  the walking legs the posed tip lowered by 0.01.
\<close>

theorem C5_ik_input_witness:
  "system_state manual_leg_taken = RUNNING
   \<and> \<not> transition_state_flag manual_leg_taken
   \<and> observe leg_states (loop env_in_progress manual_leg_taken)
       = Inr [MANUAL, WALKING, WALKING, WALKING, WALKING, WALKING]
   \<and> observe (\<lambda>s'. map delta_z (legs s')) (loop env_in_progress manual_leg_taken)
       = Inr [1 / 100, 1 / 100, 1 / 100, 1 / 100, 1 / 100, 1 / 100]
   \<and> observe (\<lambda>s'. map poser_tip_position (legs s')) (loop env_in_progress manual_leg_taken)
       = Inr [(0, 0, - 1 / 5), (0, 0, - 1 / 5), (0, 0, - 1 / 5),
              (0, 0, - 1 / 5), (0, 0, - 1 / 5), (0, 0, - 1 / 5)]
   \<and> observe (\<lambda>s'. filter applyIK_call (calls_since manual_leg_taken s'))
        (loop env_in_progress manual_leg_taken)
       = Inr [Leg_applyIK 0 (0, 0, - 1 / 5),
              Leg_applyIK 1 (0, 0, - 1 / 5 - 1 / 100), Leg_applyIK 2 (0, 0, - 1 / 5 - 1 / 100),
              Leg_applyIK 3 (0, 0, - 1 / 5 - 1 / 100), Leg_applyIK 4 (0, 0, - 1 / 5 - 1 / 100),
              Leg_applyIK 5 (0, 0, - 1 / 5 - 1 / 100)]"
proof -
  have h: "system_state manual_leg_taken = RUNNING" "\<not> transition_state_flag manual_leg_taken"
    by code_simp+
  have o: "observe leg_states (loop env_in_progress manual_leg_taken)
       = Inr [MANUAL, WALKING, WALKING, WALKING, WALKING, WALKING]
   \<and> observe (\<lambda>s'. map delta_z (legs s')) (loop env_in_progress manual_leg_taken)
       = Inr [1 / 100, 1 / 100, 1 / 100, 1 / 100, 1 / 100, 1 / 100]
   \<and> observe (\<lambda>s'. map poser_tip_position (legs s')) (loop env_in_progress manual_leg_taken)
       = Inr [(0, 0, - 1 / 5), (0, 0, - 1 / 5), (0, 0, - 1 / 5),
              (0, 0, - 1 / 5), (0, 0, - 1 / 5), (0, 0, - 1 / 5)]"
    by code_simp
  have g: "observe pipeline_gate
             (running_action env_in_progress
                (before_state_machine env_in_progress manual_leg_taken)) = Inr True"
    by code_simp
  have m: "observe (\<lambda>s1. map (\<lambda>l. Leg_applyIK (id_number l)
                     (posed_tip_less_delta_z (updateStance env_in_progress l) l)) (legs s1))
             (running_action env_in_progress
                (before_state_machine env_in_progress manual_leg_taken))
       = Inr [Leg_applyIK 0 (0, 0, - 1 / 5),
              Leg_applyIK 1 (0, 0, - 1 / 5 - 1 / 100), Leg_applyIK 2 (0, 0, - 1 / 5 - 1 / 100),
              Leg_applyIK 3 (0, 0, - 1 / 5 - 1 / 100), Leg_applyIK 4 (0, 0, - 1 / 5 - 1 / 100),
              Leg_applyIK 5 (0, 0, - 1 / 5 - 1 / 100)]"
    by code_simp
  from C5_ik_input_is_posed_tip_less_delta_z [OF h, of env_in_progress] g m
  have "observe (\<lambda>s'. filter applyIK_call (calls_since manual_leg_taken s'))
        (loop env_in_progress manual_leg_taken)
       = Inr [Leg_applyIK 0 (0, 0, - 1 / 5),
              Leg_applyIK 1 (0, 0, - 1 / 5 - 1 / 100), Leg_applyIK 2 (0, 0, - 1 / 5 - 1 / 100),
              Leg_applyIK 3 (0, 0, - 1 / 5 - 1 / 100), Leg_applyIK 4 (0, 0, - 1 / 5 - 1 / 100),
              Leg_applyIK 5 (0, 0, - 1 / 5 - 1 / 100)]"
    by (cases "running_action env_in_progress
                (before_state_machine env_in_progress manual_leg_taken)")
       (simp_all add: observe_def)
  with h o show ?thesis by blast
qed

section \<open>When the pipeline runs\<close>

lemma runningState_pipeline_iff:
  assumes "runningState env s = Inr s'" and "trace s = []"
  shows "(Poser_updateStance \<notin> set (trace s'))
           = ((gait_change_flag s' \<or> parameter_adjust_flag s'
                \<or> toggle_primary_leg_state s' \<or> toggle_secondary_leg_state s')
              \<and> walk_state s = STOPPED)"
    and "Poser_updateStance \<in> set (trace s')
           \<longrightarrow> (\<exists>s1. running_action env s = Inr s1 \<and> s' = pipeline env s1)"
proof -
  from assms(1) obtain s1 where s1: "running_action env s = Inr s1"
    by (cases "running_action env s") (simp_all add: runningState_def)
  have w: "walk_state s1 = walk_state s"
    using running_action_frame [OF s1] by simp
  have n: "Poser_updateStance \<notin> set (trace s1)"
    using quiet_no_updateStance [OF running_action_quiet [OF s1] assms(2)] .
  show "(Poser_updateStance \<notin> set (trace s'))
           = ((gait_change_flag s' \<or> parameter_adjust_flag s'
                \<or> toggle_primary_leg_state s' \<or> toggle_secondary_leg_state s')
              \<and> walk_state s = STOPPED)"
  proof (cases "pipeline_gate s1")
    case True
    with s1 assms(1) have e: "s' = pipeline env s1" by (simp add: runningState_def)
    have "Poser_updateStance \<in> set (trace s')" by (simp add: e pipeline_trace)
    moreover have "\<not> ((gait_change_flag s' \<or> parameter_adjust_flag s'
                \<or> toggle_primary_leg_state s' \<or> toggle_secondary_leg_state s')
              \<and> walk_state s = STOPPED)"
      using True w by (simp add: e pipeline_frame pipeline_gate_def)
    ultimately show ?thesis by simp
  next
    case False
    with s1 assms(1) have e: "s' = s1" by (simp add: runningState_def)
    with False n w show ?thesis by (simp add: pipeline_gate_def)
  qed
  show "Poser_updateStance \<in> set (trace s')
           \<longrightarrow> (\<exists>s1. running_action env s = Inr s1 \<and> s' = pipeline env s1)"
  proof (cases "pipeline_gate s1")
    case True
    with s1 assms(1) show ?thesis by (simp add: runningState_def)
  next
    case False
    with s1 assms(1) have "s' = s1" by (simp add: runningState_def)
    with n show ?thesis by simp
  qed
qed

lemma stopping_action:
  assumes "action_pending s" and "walk_state s \<noteq> STOPPED"
  shows "running_action env s = Inr (s\<lparr>linear_velocity_input := (0, 0), angular_velocity_input := 0\<rparr>)"
proof -
  from assms(1) consider "gait_change_flag s"
    | "\<not> gait_change_flag s" "parameter_adjust_flag s"
    | "\<not> gait_change_flag s" "\<not> parameter_adjust_flag s"
      "toggle_primary_leg_state s \<or> toggle_secondary_leg_state s"
    unfolding action_pending_def by blast
  then show ?thesis
  proof cases
    case 1
    with assms(2) show ?thesis by (simp add: running_action_def changeGait_def)
  next
    case 2
    with assms(2) show ?thesis by (simp add: running_action_def adjustParameter_def)
  next
    case 3
    with assms(2) show ?thesis by (simp add: running_action_def legStateToggle_def)
  qed
qed

lemma stopping_tick:
  assumes "system_state s = RUNNING" and "\<not> transition_state_flag s"
    and "action_pending s" and "walk_state s \<noteq> STOPPED"
  shows "\<exists>s'. loop env s = Inr s'
           \<and> action_pending s'
           \<and> linear_velocity_input s' = (0, 0) \<and> angular_velocity_input s' = 0
           \<and> Walker_updateWalk (0, 0) 0 \<in> set (calls_since s s')"
proof -
  let ?s0 = "before_state_machine env s"
  let ?s1 = "?s0\<lparr>linear_velocity_input := (0, 0), angular_velocity_input := 0\<rparr>"
  have p: "action_pending ?s0" "walk_state ?s0 \<noteq> STOPPED"
    using assms(3,4) before_state_machine_frame [of env s] by simp_all
  have a: "running_action env ?s0 = Inr ?s1"
    using stopping_action [OF p] .
  have g: "pipeline_gate ?s1" "action_pending ?s1"
    using p by (simp_all add: pipeline_gate_def action_pending_def)
  have l: "loop env s = Inr (pipeline env ?s1)"
    using running_tick_cases(1) [OF assms(1,2) a] g(1) by simp
  have c: "filter pipeline_call (calls_since s (pipeline env ?s1)) =
     [Walker_updateWalk (linear_velocity_input ?s1) (angular_velocity_input ?s1),
      Walker_updateManual (primary_leg_selection ?s1) (primary_tip_velocity_input ?s1)
        (secondary_leg_selection ?s1) (secondary_tip_velocity_input ?s1),
      Poser_updateStance]
       @ map (\<lambda>l. Leg_applyIK (id_number l) (desired_tip_position l)) (legs (pipeline env ?s1))"
    using pipeline_calls_since [OF running_tick_cases(2) [OF assms(1,2) a]] .
  have "Walker_updateWalk (0, 0) 0 \<in> set (filter pipeline_call (calls_since s (pipeline env ?s1)))"
    unfolding c by simp
  then have m: "Walker_updateWalk (0, 0) 0 \<in> set (calls_since s (pipeline env ?s1))"
    by simp
  have "action_pending (pipeline env ?s1)
        \<and> linear_velocity_input (pipeline env ?s1) = (0, 0)
        \<and> angular_velocity_input (pipeline env ?s1) = 0"
    using pipeline_inputs [of env ?s1] g(2) by simp
  with l m show ?thesis by blast
qed

lemma running_tick_pipeline:
  assumes "system_state s = RUNNING" and "\<not> transition_state_flag s"
    and "loop env s = Inr s'"
  shows "(filter pipeline_call (calls_since s s') = [])
           = (action_pending s' \<and> walk_state s = STOPPED)"
    and "\<not> (action_pending s' \<and> walk_state s = STOPPED) \<Longrightarrow>
         filter pipeline_call (calls_since s s') =
           [Walker_updateWalk (linear_velocity_input s') (angular_velocity_input s'),
            Walker_updateManual (primary_leg_selection s') (primary_tip_velocity_input s')
              (secondary_leg_selection s') (secondary_tip_velocity_input s'),
            Poser_updateStance]
           @ map (\<lambda>l. Leg_applyIK (id_number l) (desired_tip_position l)) (legs s')"
    and "\<exists>s1. running_action env (before_state_machine env s) = Inr s1
            \<and> s' = (if pipeline_gate s1 then pipeline env s1 else s1)
            \<and> pipeline_gate s1 = (\<not> (action_pending s' \<and> walk_state s = STOPPED))"
proof -
  from assms obtain s1 where a: "running_action env (before_state_machine env s) = Inr s1"
    using running_tick_fault [OF assms(1,2)]
    by (cases "running_action env (before_state_machine env s)") auto
  note t = running_tick_cases [OF assms(1,2) a]
  have g: "pipeline_gate s1 = (\<not> (action_pending s1 \<and> walk_state s = STOPPED))"
    using t(3) by (simp add: pipeline_gate_def action_pending_def)
  have both: "(filter pipeline_call (calls_since s s') = [])
           = (action_pending s' \<and> walk_state s = STOPPED)
     \<and> (\<not> (action_pending s' \<and> walk_state s = STOPPED) \<longrightarrow>
         filter pipeline_call (calls_since s s') =
           [Walker_updateWalk (linear_velocity_input s') (angular_velocity_input s'),
            Walker_updateManual (primary_leg_selection s') (primary_tip_velocity_input s')
              (secondary_leg_selection s') (secondary_tip_velocity_input s'),
            Poser_updateStance]
           @ map (\<lambda>l. Leg_applyIK (id_number l) (desired_tip_position l)) (legs s'))"
  proof (cases "pipeline_gate s1")
    case True
    with t(1) assms(3) have e: "s' = pipeline env s1" by simp
    have n: "\<not> (action_pending s' \<and> walk_state s = STOPPED)"
      using True g pipeline_inputs [of env s1] by (simp add: e)
    have c: "filter pipeline_call (calls_since s s') =
           [Walker_updateWalk (linear_velocity_input s') (angular_velocity_input s'),
            Walker_updateManual (primary_leg_selection s') (primary_tip_velocity_input s')
              (secondary_leg_selection s') (secondary_tip_velocity_input s'),
            Poser_updateStance]
           @ map (\<lambda>l. Leg_applyIK (id_number l) (desired_tip_position l)) (legs s')"
      unfolding e using pipeline_calls_since [OF t(2), of env] pipeline_inputs [of env s1]
      by simp
    from n c show ?thesis by simp
  next
    case False
    with t(1) assms(3) have e: "s' = s1" by simp
    have "filter pipeline_call (calls_since s s') = []"
      by (simp add: e skipped_calls [OF t(2)])
    with False g e show ?thesis by simp
  qed
  from both show "(filter pipeline_call (calls_since s s') = [])
           = (action_pending s' \<and> walk_state s = STOPPED)" by blast
  from both show "\<not> (action_pending s' \<and> walk_state s = STOPPED) \<Longrightarrow>
         filter pipeline_call (calls_since s s') =
           [Walker_updateWalk (linear_velocity_input s') (angular_velocity_input s'),
            Walker_updateManual (primary_leg_selection s') (primary_tip_velocity_input s')
              (secondary_leg_selection s') (secondary_tip_velocity_input s'),
            Poser_updateStance]
           @ map (\<lambda>l. Leg_applyIK (id_number l) (desired_tip_position l)) (legs s')" by blast
  have e: "s' = (if pipeline_gate s1 then pipeline env s1 else s1)"
    using t(1) assms(3) by simp
  have "action_pending s' = action_pending s1"
    using pipeline_inputs [of env s1] by (cases "pipeline_gate s1") (simp_all add: e)
  with g have "pipeline_gate s1 = (\<not> (action_pending s' \<and> walk_state s = STOPPED))"
    by simp
  with a e show "\<exists>s1. running_action env (before_state_machine env s) = Inr s1
            \<and> s' = (if pipeline_gate s1 then pipeline env s1 else s1)
            \<and> pipeline_gate s1 = (\<not> (action_pending s' \<and> walk_state s = STOPPED))"
    by blast
qed

text \<open>
  Claim C3, as amended. In a tick in the running state (the system state is \<open>RUNNING\<close>
  and no transition is pending, so that \<^verbatim>\<open>loop\<close> calls \<^verbatim>\<open>runningState\<close>) the
  pipeline is skipped, that is, the tick calls none of \<^verbatim>\<open>updateWalk\<close>,
  \<^verbatim>\<open>updateManual\<close>, \<^verbatim>\<open>updateStance\<close> and \<^verbatim>\<open>applyIK\<close>, exactly when,
  after the sub-action of the tick has run, one of the gait-change, parameter-adjust or
  leg-state-toggle flags is still raised and the walker is \<open>STOPPED\<close>. In every other
  case the whole pipeline runs: \<^verbatim>\<open>updateWalk\<close> on the velocity inputs,
  \<^verbatim>\<open>updateManual\<close>, \<^verbatim>\<open>updateStance\<close> and one \<^verbatim>\<open>applyIK\<close> per leg. The
  tick ends in the state the sub-action left, passed through the pipeline when the guard
  holds of it; the pipeline changes none of the flags. In particular, while such a
  request is pending and the walker has not yet stopped, the tick does not fault, the
  request stays pending, both velocity inputs are set to zero and \<^verbatim>\<open>updateWalk\<close>
  is called with zero velocities.
\<close>

theorem C3_pipeline_skipped_iff_flag_raised_and_stopped:
  assumes "system_state s = RUNNING" and "\<not> transition_state_flag s"
  shows "(case loop env s of
            Inl e \<Rightarrow> True
          | Inr s' \<Rightarrow>
              ((filter pipeline_call (calls_since s s') = [])
                 = (action_pending s' \<and> walk_state s = STOPPED))
              \<and> (\<not> (action_pending s' \<and> walk_state s = STOPPED) \<longrightarrow>
                   filter pipeline_call (calls_since s s') =
                     [Walker_updateWalk (linear_velocity_input s') (angular_velocity_input s'),
                      Walker_updateManual
                        (primary_leg_selection s') (primary_tip_velocity_input s')
                        (secondary_leg_selection s') (secondary_tip_velocity_input s'),
                      Poser_updateStance]
                     @ map (\<lambda>l. Leg_applyIK (id_number l) (desired_tip_position l)) (legs s'))
              \<and> (\<exists>s1. running_action env (before_state_machine env s) = Inr s1
                     \<and> s' = (if pipeline_gate s1 then pipeline env s1 else s1)
                     \<and> pipeline_gate s1
                         = (\<not> (action_pending s' \<and> walk_state s = STOPPED))))
       \<and> (action_pending s \<and> walk_state s \<noteq> STOPPED \<longrightarrow>
            (\<exists>s'. loop env s = Inr s'
                \<and> action_pending s'
                \<and> linear_velocity_input s' = (0, 0) \<and> angular_velocity_input s' = 0
                \<and> Walker_updateWalk (0, 0) 0 \<in> set (calls_since s s')))"
proof (intro conjI impI)
  show "case loop env s of
            Inl e \<Rightarrow> True
          | Inr s' \<Rightarrow>
              ((filter pipeline_call (calls_since s s') = [])
                 = (action_pending s' \<and> walk_state s = STOPPED))
              \<and> (\<not> (action_pending s' \<and> walk_state s = STOPPED) \<longrightarrow>
                   filter pipeline_call (calls_since s s') =
                     [Walker_updateWalk (linear_velocity_input s') (angular_velocity_input s'),
                      Walker_updateManual
                        (primary_leg_selection s') (primary_tip_velocity_input s')
                        (secondary_leg_selection s') (secondary_tip_velocity_input s'),
                      Poser_updateStance]
                     @ map (\<lambda>l. Leg_applyIK (id_number l) (desired_tip_position l)) (legs s'))
              \<and> (\<exists>s1. running_action env (before_state_machine env s) = Inr s1
                     \<and> s' = (if pipeline_gate s1 then pipeline env s1 else s1)
                     \<and> pipeline_gate s1
                         = (\<not> (action_pending s' \<and> walk_state s = STOPPED)))"
  proof (cases "loop env s")
    case (Inl e)
    then show ?thesis by simp
  next
    case (Inr s')
    from running_tick_pipeline [OF assms Inr] Inr show ?thesis by simp
  qed
  assume "action_pending s \<and> walk_state s \<noteq> STOPPED"
  then show "\<exists>s'. loop env s = Inr s'
                \<and> action_pending s'
                \<and> linear_velocity_input s' = (0, 0) \<and> angular_velocity_input s' = 0
                \<and> Walker_updateWalk (0, 0) 0 \<in> set (calls_since s s')"
    using stopping_tick [OF assms] by blast
qed

text \<open>
  Counterexample to C3 as stated: with a gait change pending and the walker \<open>MOVING\<close>
  the pipeline runs; with a parameter adjustment pending and the walker \<open>STOPPED\<close> the
  pipeline is skipped. Both hold of \<^verbatim>\<open>runningState\<close> and of the tick.
\<close>

theorem C3_pipeline_runs_while_walker_is_stopping:
  "gait_change_flag walking_with_gait_request
   \<and> walk_state walking_with_gait_request = MOVING
   \<and> observe (called Poser_updateStance)
        (runningState env_walking walking_with_gait_request) = Inr True
   \<and> parameter_adjust_flag standing_with_parameter_request
   \<and> walk_state standing_with_parameter_request = STOPPED
   \<and> observe (called Poser_updateStance)
        (runningState env_in_progress standing_with_parameter_request) = Inr False
   \<and> system_state walking_with_gait_request = RUNNING
   \<and> \<not> transition_state_flag walking_with_gait_request
   \<and> observe (called Poser_updateStance)
        (loop env_walking walking_with_gait_request) = Inr True
   \<and> system_state standing_with_parameter_request = RUNNING
   \<and> \<not> transition_state_flag standing_with_parameter_request
   \<and> observe (called Poser_updateStance)
        (loop env_in_progress standing_with_parameter_request) = Inr False"
  by code_simp

text \<open>
  Witness for C3: the robot walks and a gait change is pending; the flag stays raised,
  the velocity inputs are zeroed and the pipeline runs on them. The robot stands and a
  parameter adjustment is pending; the flag stays raised and the pipeline is skipped.
\<close>

theorem C3_pipeline_gate_witness:
  "system_state walking_with_gait_request = RUNNING
   \<and> \<not> transition_state_flag walking_with_gait_request
   \<and> action_pending walking_with_gait_request
   \<and> walk_state walking_with_gait_request \<noteq> STOPPED
   \<and> observe action_pending (loop env_walking walking_with_gait_request) = Inr True
   \<and> observe linear_velocity_input (loop env_walking walking_with_gait_request) = Inr (0, 0)
   \<and> observe angular_velocity_input (loop env_walking walking_with_gait_request) = Inr 0
   \<and> observe (\<lambda>s'. filter pipeline_call (calls_since walking_with_gait_request s'))
        (loop env_walking walking_with_gait_request)
       = Inr [Walker_updateWalk (0, 0) 0,
              Walker_updateManual None (0, 0, 0) None (0, 0, 0),
              Poser_updateStance,
              Leg_applyIK 0 (0, 0, - 1 / 5 - 1 / 100), Leg_applyIK 1 (0, 0, - 1 / 5 - 1 / 100),
              Leg_applyIK 2 (0, 0, - 1 / 5 - 1 / 100), Leg_applyIK 3 (0, 0, - 1 / 5 - 1 / 100),
              Leg_applyIK 4 (0, 0, - 1 / 5 - 1 / 100), Leg_applyIK 5 (0, 0, - 1 / 5 - 1 / 100)]
   \<and> system_state standing_with_parameter_request = RUNNING
   \<and> \<not> transition_state_flag standing_with_parameter_request
   \<and> walk_state standing_with_parameter_request = STOPPED
   \<and> observe action_pending (loop env_in_progress standing_with_parameter_request) = Inr True
   \<and> observe (\<lambda>s'. filter pipeline_call (calls_since standing_with_parameter_request s'))
        (loop env_in_progress standing_with_parameter_request) = Inr []"
proof -
  have h: "system_state walking_with_gait_request = RUNNING"
    "\<not> transition_state_flag walking_with_gait_request"
    by code_simp+
  have p: "action_pending walking_with_gait_request
           \<and> walk_state walking_with_gait_request \<noteq> STOPPED"
    by code_simp
  have c: "observe (\<lambda>s'. filter pipeline_call (calls_since walking_with_gait_request s'))
        (loop env_walking walking_with_gait_request)
       = Inr [Walker_updateWalk (0, 0) 0,
              Walker_updateManual None (0, 0, 0) None (0, 0, 0),
              Poser_updateStance,
              Leg_applyIK 0 (0, 0, - 1 / 5 - 1 / 100), Leg_applyIK 1 (0, 0, - 1 / 5 - 1 / 100),
              Leg_applyIK 2 (0, 0, - 1 / 5 - 1 / 100), Leg_applyIK 3 (0, 0, - 1 / 5 - 1 / 100),
              Leg_applyIK 4 (0, 0, - 1 / 5 - 1 / 100), Leg_applyIK 5 (0, 0, - 1 / 5 - 1 / 100)]"
    by code_simp
  have k: "system_state standing_with_parameter_request = RUNNING"
    "\<not> transition_state_flag standing_with_parameter_request"
    by code_simp+
  have q: "walk_state standing_with_parameter_request = STOPPED
   \<and> observe action_pending (loop env_in_progress standing_with_parameter_request) = Inr True"
    by code_simp
  from C3_pipeline_skipped_iff_flag_raised_and_stopped [OF h, of env_walking] p
  have v: "observe action_pending (loop env_walking walking_with_gait_request) = Inr True
   \<and> observe linear_velocity_input (loop env_walking walking_with_gait_request) = Inr (0, 0)
   \<and> observe angular_velocity_input (loop env_walking walking_with_gait_request) = Inr 0"
    by (auto simp: observe_def)
  from C3_pipeline_skipped_iff_flag_raised_and_stopped [OF k, of env_in_progress] q
  have w: "observe (\<lambda>s'. filter pipeline_call (calls_since standing_with_parameter_request s'))
        (loop env_in_progress standing_with_parameter_request) = Inr []"
    by (auto simp: observe_def split: sum.splits)
  from h p c k q v w show ?thesis by blast
qed

section \<open>Order of the stages within a tick\<close>

lemma sorted_const: "set xs \<subseteq> {c} \<Longrightarrow> sorted (map f xs)"
  by (induction xs) auto

lemma stage_events_pipeline:
  "\<exists>C. stage_events (trace (pipeline env s)) = stage_events (trace s) @ [Walk, Walk, Pose] @ C
        \<and> set C \<subseteq> {IK}"
proof -
  let ?ls = "map (\<lambda>l. l\<lparr>poser_tip_position := updateStance env l\<rparr>) (legs s)"
  have "stage_events (trace (pipeline env s))
          = stage_events (trace s) @ [Walk, Walk, Pose] @ stage_events (snd (ik_legs ?ls))"
    by (simp add: pipeline_trace stage_events_append) (simp add: stage_events_def map_filter_def)
  then show ?thesis using stage_events_ik [of ?ls] by blast
qed

lemma stage_events_runningState:
  assumes "runningState env s = Inr s'"
  shows "stage_events (trace s') = stage_events (trace s)
         \<or> (\<exists>C. stage_events (trace s') = stage_events (trace s) @ [Walk, Walk, Pose] @ C
                  \<and> set C \<subseteq> {IK})"
proof (cases "running_action env s")
  case (Inl e)
  with assms show ?thesis by (simp add: runningState_def)
next
  case (Inr s1)
  then have q: "stage_events (trace s1) = stage_events (trace s)"
    using running_action_quiet quiet_stage_events by blast
  show ?thesis
  proof (cases "pipeline_gate s1")
    case True
    with Inr assms have "s' = pipeline env s1" by (simp add: runningState_def)
    then show ?thesis using stage_events_pipeline [of env s1] q by auto
  next
    case False
    with Inr assms have "s' = s1" by (simp add: runningState_def)
    then show ?thesis using q by simp
  qed
qed

text \<open>Every tick makes its stage calls in the order Impedance, Walk, Pose, IK.\<close>

lemma loop_stage_order:
  "sorted (map loop_order (stage_events (tick_events env s)))"
proof -
  define s0 where "s0 = s\<lparr>trace := []\<rparr>"
  define s1 where "s1 = (if system_state s0 \<noteq> UNKNOWN then
                  (let u = emit Poser_updateCurrentPose s0
                   in if impedance_control (params u) then impedanceControl env u else u)
                else s0)"
  have eq: "loop env s0 = (if transition_state_flag s1 then Inr (transitionSystemState env s1)
         else if system_state s1 = RUNNING then runningState env s1
         else Inr s1)"
    by (simp add: loop_def s1_def Let_def)
  have t0: "trace s0 = []" by (simp add: s0_def)
  have "stage_events (trace (emit Poser_updateCurrentPose s0)) = []"
    by (simp add: t0 stage_events_def map_filter_def)
  moreover have "set (stage_events (trace (impedanceControl env (emit Poser_updateCurrentPose s0))))
                   \<subseteq> {Impedance}"
    using stage_events_impedance [of env "legs s0"]
    by (auto simp: impedanceControl_trace stage_events_append t0)
       (auto simp: stage_events_def map_filter_def)
  ultimately have pre: "set (stage_events (trace s1)) \<subseteq> {Impedance}"
    by (auto simp: s1_def Let_def t0 stage_events_def map_filter_def)
  have pre_sorted: "sorted (map loop_order (stage_events (trace s1)))"
    using pre by (rule sorted_const)
  have with_pipeline: "sorted (map loop_order (stage_events (trace s1) @ [Walk, Walk, Pose] @ C))"
    if "set C \<subseteq> {IK}" for C
  proof -
    have "sorted (map loop_order C)" using that by (rule sorted_const)
    moreover have "\<forall>x \<in> set C. loop_order x = 3" using that by auto
    moreover have "\<forall>x \<in> set (stage_events (trace s1)). loop_order x = 0" using pre by auto
    ultimately show ?thesis using pre_sorted by (auto simp: sorted_append)
  qed
  show ?thesis
  proof (cases "loop env s0")
    case (Inl e)
    then show ?thesis by (simp add: tick_events_def s0_def)
  next
    case (Inr s')
    then have te: "tick_events env s = trace s'" by (simp add: tick_events_def s0_def)
    show ?thesis
    proof (cases "transition_state_flag s1")
      case True
      with eq Inr have "s' = transitionSystemState env s1" by simp
      then have "stage_events (trace s') = stage_events (trace s1)"
        using transitionSystemState_quiet quiet_stage_events by blast
      with pre_sorted te show ?thesis by simp
    next
      case False
      show ?thesis
      proof (cases "system_state s1 = RUNNING")
        case True
        with False eq Inr have "runningState env s1 = Inr s'" by simp
        from stage_events_runningState [OF this] pre_sorted with_pipeline te
        show ?thesis by auto
      next
        case F: False
        with False eq Inr have "s' = s1" by simp
        with pre_sorted te show ?thesis by simp
      qed
    qed
  qed
qed

lemma idle_tick:
  assumes "system_state s = RUNNING" and "\<not> transition_state_flag s"
    and "impedance_control (params s)"
    and "\<not> gait_change_flag s" and "\<not> parameter_adjust_flag s"
    and "\<not> toggle_primary_leg_state s" and "\<not> toggle_secondary_leg_state s"
  shows "observe legs (loop env s) =
     Inr (map (\<lambda>l. let l1 = (if leg_state l = WALKING
                               then l\<lparr>delta_z := updateImpedance env l\<rparr> else l);
                        l2 = l1\<lparr>poser_tip_position := updateStance env l1\<rparr>
                    in l2\<lparr>desired_tip_position := target_tip_position l2\<rparr>) (legs s))"
  using assms
  by (simp add: loop_def runningState_def running_action_def pipeline_gate_def
      impedanceControl_eq emit_def observe_def pipeline_legs_map impedance_legs_legs Let_def
      comp_def)

text \<open>
  Claim C2, as amended. Within every tick the calls of the stages occur in the order
  Impedance, Walk, Pose, IK (a stage that does not run in the tick is absent): no
  impedance call follows a call of the walker, of \<^verbatim>\<open>updateStance\<close> or of
  \<^verbatim>\<open>applyIK\<close>. In a \<open>RUNNING\<close> tick with impedance control enabled and no request
  pending, the \<^verbatim>\<open>delta_z\<close> of a walking leg is computed by
  \<^verbatim>\<open>updateImpedance\<close> from the leg as the previous tick left it, before the walker
  and \<^verbatim>\<open>updateStance\<close> run, and is then subtracted at the IK stage.
\<close>

theorem C2_stages_run_in_loop_order:
  "sorted (map loop_order (stage_events (tick_events env s)))
   \<and> (system_state s = RUNNING \<and> \<not> transition_state_flag s \<and> impedance_control (params s)
       \<and> \<not> gait_change_flag s \<and> \<not> parameter_adjust_flag s
       \<and> \<not> toggle_primary_leg_state s \<and> \<not> toggle_secondary_leg_state s \<longrightarrow>
       observe legs (loop env s) =
         Inr (map (\<lambda>l. let l1 = (if leg_state l = WALKING
                                   then l\<lparr>delta_z := updateImpedance env l\<rparr> else l);
                            l2 = l1\<lparr>poser_tip_position := updateStance env l1\<rparr>
                        in l2\<lparr>desired_tip_position := target_tip_position l2\<rparr>) (legs s)))"
  using loop_stage_order [of env s] idle_tick [of s env] by blast

text \<open>
  Counterexample to C2 as stated: in the tick of the standing robot the six impedance
  updates come first, then the walker, \<^verbatim>\<open>updateStance\<close> and the six calls of
  \<^verbatim>\<open>applyIK\<close>; the calls are not in the order Walk, Pose, Impedance, IK.
\<close>

theorem C2_impedance_precedes_walk_and_pose:
  "stage_events (tick_events env_in_progress running_idle)
     = [Impedance, Impedance, Impedance, Impedance, Impedance, Impedance,
        Walk, Walk, Pose, IK, IK, IK, IK, IK, IK]
   \<and> \<not> sorted (map spec_order (stage_events (tick_events env_in_progress running_idle)))"
  by code_simp

text \<open>
  Witness for C2: the tick of the standing robot in \<open>RUNNING\<close> with no request pending.
\<close>

theorem C2_stage_order_witness:
  "system_state running_idle = RUNNING \<and> \<not> transition_state_flag running_idle
   \<and> impedance_control (params running_idle)
   \<and> \<not> gait_change_flag running_idle \<and> \<not> parameter_adjust_flag running_idle
   \<and> \<not> toggle_primary_leg_state running_idle \<and> \<not> toggle_secondary_leg_state running_idle
   \<and> sorted (map loop_order (stage_events (tick_events env_in_progress running_idle)))
   \<and> observe legs (loop env_in_progress running_idle) =
         Inr (map (\<lambda>l. let l1 = (if leg_state l = WALKING
                                   then l\<lparr>delta_z := updateImpedance env_in_progress l\<rparr> else l);
                            l2 = l1\<lparr>poser_tip_position := updateStance env_in_progress l1\<rparr>
                        in l2\<lparr>desired_tip_position := target_tip_position l2\<rparr>)
                (legs running_idle))"
proof -
  have h: "system_state running_idle = RUNNING \<and> \<not> transition_state_flag running_idle
   \<and> impedance_control (params running_idle)
   \<and> \<not> gait_change_flag running_idle \<and> \<not> parameter_adjust_flag running_idle
   \<and> \<not> toggle_primary_leg_state running_idle \<and> \<not> toggle_secondary_leg_state running_idle"
    by code_simp
  from C2_stages_run_in_loop_order [of env_in_progress running_idle] h show ?thesis by blast
qed

section \<open>System state commands\<close>

text \<open>
  Once the current state and the target have left \<open>WAITING_FOR_USER\<close>: with
  \<^verbatim>\<open>start_up_sequence\<close> false a command is stored as the target, \<open>READY\<close> and
  \<open>PACKED\<close> rewritten to \<open>OFF\<close>; with \<^verbatim>\<open>start_up_sequence\<close> true the
  target stays as it was.
\<close>

lemma command_stored_without_start_up_sequence:
  assumes "\<not> start_up_sequence (params s)" and "system_state s \<noteq> WAITING_FOR_USER"
    and "new_system_state s \<noteq> WAITING_FOR_USER"
  shows "new_system_state (systemStateCallback x s) = (if x = READY \<or> x = PACKED then OFF else x)"
  using assms by (simp add: systemStateCallback_def Let_def)

lemma command_ignored_with_start_up_sequence:
  assumes "start_up_sequence (params s)" and "system_state s \<noteq> WAITING_FOR_USER"
    and "new_system_state s \<noteq> WAITING_FOR_USER"
  shows "new_system_state (systemStateCallback x s) = new_system_state s"
  using assms by (simp add: systemStateCallback_def Let_def)

text \<open>
  Claim C4. After the controller has left \<open>WAITING_FOR_USER\<close> every command should
  become the new target. With \<^verbatim>\<open>start_up_sequence\<close> true the callback stores
  nothing: the robot is \<open>PACKED\<close> with target \<open>PACKED\<close>, the command \<open>RUNNING\<close>
  arrives, and the target is still \<open>PACKED\<close> with no transition requested.
\<close>

theorem C4_command_ignored_when_start_up_sequence_is_set:
  "observe system_state (run bring_up_packed sequenced_start) = Inr PACKED
   \<and> observe new_system_state (run bring_up_packed sequenced_start) = Inr PACKED
   \<and> observe system_state (run (bring_up_packed @ [Op_systemState RUNNING]) sequenced_start)
       = Inr PACKED
   \<and> observe new_system_state (run (bring_up_packed @ [Op_systemState RUNNING]) sequenced_start)
       = Inr PACKED
   \<and> observe transition_state_flag
        (run (bring_up_packed @ [Op_systemState RUNNING]) sequenced_start) = Inr False"
  by code_simp

section \<open>Manual legs\<close>

text \<open>
  A toggle request on a \<open>WALKING\<close> leg is granted when the manual leg counter is
  below \<^verbatim>\<open>MAX_MANUAL_LEGS\<close>; otherwise both toggle flags are cleared and the leg
  keeps walking.
\<close>

lemma toggle_request_on_walking_leg:
  assumes "walk_state s = STOPPED"
    and "(if toggle_primary_leg_state s
          then getLegByIDNumber (legs s) (primary_leg_selection s)
          else if toggle_secondary_leg_state s
          then getLegByIDNumber (legs s) (secondary_leg_selection s)
          else None) = Some l"
    and "leg_state l = WALKING"
  shows "legStateToggle env s =
     Inr (if manual_leg_count s < MAX_MANUAL_LEGS
          then setLegState (id_number l) WALKING_TO_MANUAL (emit Poser_calculateDefaultPose s)
          else (emit Poser_calculateDefaultPose s)
                 \<lparr>toggle_primary_leg_state := False, toggle_secondary_leg_state := False\<rparr>)"
  using assms by (simp add: legStateToggle_def Let_def emit_def)

text \<open>
  Claim C6. At most \<^verbatim>\<open>MAX_MANUAL_LEGS\<close> = 2 legs should be in a manual-associated
  state. The counter \<^verbatim>\<open>manual_leg_count_\<close> only counts completed transitions, and
  the primary selection may change while a toggle is in progress: three legs end up in
  \<open>WALKING_TO_MANUAL\<close> with the counter at 0, and completing the transitions one by
  one leaves three legs \<open>MANUAL\<close> with the counter at 3.
\<close>

theorem C6_three_legs_in_manual_associated_states:
  "observe leg_states (run three_takeovers cold_start)
     = Inr [WALKING_TO_MANUAL, WALKING_TO_MANUAL, WALKING_TO_MANUAL, WALKING, WALKING, WALKING]
   \<and> observe manual_associated_count (run three_takeovers cold_start) = Inr 3
   \<and> observe manual_leg_count (run three_takeovers cold_start) = Inr 0
   \<and> observe leg_states (run three_completions cold_start)
       = Inr [MANUAL, MANUAL, MANUAL, WALKING, WALKING, WALKING]
   \<and> observe manual_leg_count (run three_completions cold_start) = Inr 3
   \<and> MAX_MANUAL_LEGS = 2"
  by code_simp

section \<open>Transition flag\<close>

lemma transitionSystemState_clears:
  "system_state (transitionSystemState env s) = new_system_state (transitionSystemState env s)
     \<Longrightarrow> \<not> transition_state_flag (transitionSystemState env s)"
  by (simp add: transitionSystemState_def Let_def split: if_splits)

lemma loop_invariant:
  assumes "loop env s = Inr s'" and "system_state s' = new_system_state s'"
  shows "\<not> transition_state_flag s'"
proof -
  define s1 where "s1 = (if system_state s \<noteq> UNKNOWN then
                  (let s0 = emit Poser_updateCurrentPose s
                   in if impedance_control (params s0) then impedanceControl env s0 else s0)
                else s)"
  have eq: "loop env s = (if transition_state_flag s1 then Inr (transitionSystemState env s1)
         else if system_state s1 = RUNNING then runningState env s1
         else Inr s1)"
    by (simp add: loop_def s1_def Let_def)
  show ?thesis
  proof (cases "transition_state_flag s1")
    case True
    with assms eq have "s' = transitionSystemState env s1" by simp
    with assms(2) show ?thesis using transitionSystemState_clears by blast
  next
    case False
    show ?thesis
    proof (cases "system_state s1 = RUNNING")
      case True
      with False assms eq have "runningState env s1 = Inr s'" by simp
      from runningState_frame [OF this] False show ?thesis by simp
    next
      case F2: False
      with False assms eq show ?thesis by simp
    qed
  qed
qed

lemma callback_raises_only_when_differ:
  "\<not> transition_state_flag s \<Longrightarrow>
   system_state (systemStateCallback x s) = new_system_state (systemStateCallback x s) \<Longrightarrow>
   \<not> transition_state_flag (systemStateCallback x s)"
  by (auto simp: systemStateCallback_def Let_def split: if_splits)

lemma callback_never_clears:
  "transition_state_flag s \<Longrightarrow> transition_state_flag (systemStateCallback x s)"
  by (simp add: systemStateCallback_def Let_def)

text \<open>
  Claim C7, as amended. After every tick, equal current and target states imply that
  the transition flag is low: \<^verbatim>\<open>transitionSystemState\<close> clears the flag whenever
  the two states are equal on exit. The callback raises the flag only when the states
  differ, and it never clears the flag: a flag raised before the callback is raised
  after it. After a callback the implication holds when the flag was low before the
  callback.
\<close>

theorem C7_equal_states_imply_flag_cleared_after_tick:
  "(case loop env s of
      Inl e \<Rightarrow> True
    | Inr s' \<Rightarrow> system_state s' = new_system_state s' \<longrightarrow> \<not> transition_state_flag s')
   \<and> (system_state (transitionSystemState env s) = new_system_state (transitionSystemState env s)
        \<longrightarrow> \<not> transition_state_flag (transitionSystemState env s))
   \<and> (\<not> transition_state_flag s
        \<longrightarrow> system_state (systemStateCallback x s) = new_system_state (systemStateCallback x s)
        \<longrightarrow> \<not> transition_state_flag (systemStateCallback x s))
   \<and> (transition_state_flag s \<longrightarrow> transition_state_flag (systemStateCallback x s))
   \<and> (transition_state_flag (systemStateCallback x s) \<and> \<not> transition_state_flag s
        \<longrightarrow> system_state (systemStateCallback x s) \<noteq> new_system_state (systemStateCallback x s))"
proof (intro conjI)
  show "case loop env s of
      Inl e \<Rightarrow> True
    | Inr s' \<Rightarrow> system_state s' = new_system_state s' \<longrightarrow> \<not> transition_state_flag s'"
    using loop_invariant [of env s] by (cases "loop env s") auto
  show "system_state (transitionSystemState env s) = new_system_state (transitionSystemState env s)
        \<longrightarrow> \<not> transition_state_flag (transitionSystemState env s)"
    using transitionSystemState_clears [of env s] by blast
  show "\<not> transition_state_flag s
        \<longrightarrow> system_state (systemStateCallback x s) = new_system_state (systemStateCallback x s)
        \<longrightarrow> \<not> transition_state_flag (systemStateCallback x s)"
    using callback_raises_only_when_differ [of s x] by blast
  show "transition_state_flag s \<longrightarrow> transition_state_flag (systemStateCallback x s)"
    using callback_never_clears [of s x] by blast
  show "transition_state_flag (systemStateCallback x s) \<and> \<not> transition_state_flag s
        \<longrightarrow> system_state (systemStateCallback x s) \<noteq> new_system_state (systemStateCallback x s)"
    using callback_raises_only_when_differ [of s x] by blast
qed

text \<open>
  Counterexample to C7 as stated: direct start-up is under way (\<open>OFF\<close>, target
  \<open>RUNNING\<close>, flag raised); after the command \<open>OFF\<close> the states are equal and the
  flag is still raised.
\<close>

theorem C7_callback_leaves_flag_raised_on_equal_states:
  "observe system_state (run reach_off cold_start) = Inr OFF
   \<and> observe new_system_state (run reach_off cold_start) = Inr RUNNING
   \<and> observe transition_state_flag (run reach_off cold_start) = Inr True
   \<and> observe system_state (run cancel_direct_startup cold_start) = Inr OFF
   \<and> observe new_system_state (run cancel_direct_startup cold_start) = Inr OFF
   \<and> observe transition_state_flag (run cancel_direct_startup cold_start) = Inr True"
  by code_simp

text \<open>
  Witness for C7: the tick that completes the direct start-up; a repeated command
  \<open>RUNNING\<close> to the standing robot, which leaves the flag low; the command \<open>OFF\<close>
  during the direct start-up, which leaves the flag raised; and the command
  \<open>SUSPENDED\<close> to the standing robot, which raises the flag on differing states.
\<close>

theorem C7_flag_cleared_witness:
  "observe system_state (loop env_complete direct_startup_pending) = Inr RUNNING
   \<and> observe new_system_state (loop env_complete direct_startup_pending) = Inr RUNNING
   \<and> observe transition_state_flag (loop env_complete direct_startup_pending) = Inr False
   \<and> \<not> transition_state_flag running_idle
   \<and> system_state (systemStateCallback RUNNING running_idle)
       = new_system_state (systemStateCallback RUNNING running_idle)
   \<and> \<not> transition_state_flag (systemStateCallback RUNNING running_idle)
   \<and> transition_state_flag direct_startup_pending
   \<and> transition_state_flag (systemStateCallback OFF direct_startup_pending)
   \<and> transition_state_flag (systemStateCallback SUSPENDED running_idle)
   \<and> system_state (systemStateCallback SUSPENDED running_idle)
       \<noteq> new_system_state (systemStateCallback SUSPENDED running_idle)"
proof -
  have h: "observe system_state (loop env_complete direct_startup_pending) = Inr RUNNING
   \<and> observe new_system_state (loop env_complete direct_startup_pending) = Inr RUNNING"
    by code_simp
  have k: "\<not> transition_state_flag running_idle
   \<and> system_state (systemStateCallback RUNNING running_idle)
       = new_system_state (systemStateCallback RUNNING running_idle)"
    by code_simp
  have r: "transition_state_flag direct_startup_pending" by code_simp
  have u: "transition_state_flag (systemStateCallback SUSPENDED running_idle)" by code_simp
  from C7_equal_states_imply_flag_cleared_after_tick
         [of env_complete direct_startup_pending RUNNING] h
  have "observe transition_state_flag (loop env_complete direct_startup_pending) = Inr False"
    by (auto simp: observe_def split: sum.splits)
  moreover from C7_equal_states_imply_flag_cleared_after_tick
         [of env_complete running_idle RUNNING] k
  have "\<not> transition_state_flag (systemStateCallback RUNNING running_idle)" by blast
  moreover from C7_equal_states_imply_flag_cleared_after_tick
         [of env_complete direct_startup_pending OFF] r
  have "transition_state_flag (systemStateCallback OFF direct_startup_pending)" by blast
  moreover from C7_equal_states_imply_flag_cleared_after_tick
         [of env_complete running_idle SUSPENDED] k u
  have "system_state (systemStateCallback SUSPENDED running_idle)
       \<noteq> new_system_state (systemStateCallback SUSPENDED running_idle)" by blast
  ultimately show ?thesis using h k r u by blast
qed

section \<open>Equal current and target state\<close>

lemma equal_states_dispatch:
  assumes "system_state s \<in> {OFF, PACKED, READY, RUNNING}"
    and "new_system_state s = system_state s"
  shows "transition_dispatch env s = emit Ros_shutdown (emit Ros_fatal s)"
proof -
  from assms(1) consider "system_state s = OFF" | "system_state s = PACKED"
    | "system_state s = READY" | "system_state s = RUNNING" by auto
  then show ?thesis
  proof cases
    case 1
    with assms(2) have "new_system_state s = OFF" by simp
    with 1 show ?thesis by (simp add: transition_dispatch_def)
  next
    case 2
    with assms(2) have "new_system_state s = PACKED" by simp
    with 2 show ?thesis by (simp add: transition_dispatch_def)
  next
    case 3
    with assms(2) have "new_system_state s = READY" by simp
    with 3 show ?thesis by (simp add: transition_dispatch_def)
  next
    case 4
    with assms(2) have "new_system_state s = RUNNING" by simp
    with 4 show ?thesis by (simp add: transition_dispatch_def)
  qed
qed

lemma equal_states_fatal:
  assumes "system_state s \<in> {OFF, PACKED, READY, RUNNING}"
    and "new_system_state s = system_state s"
  shows "transitionSystemState env s
     = (emit Ros_shutdown (emit Ros_fatal s))\<lparr>transition_state_flag := False\<rparr>"
proof -
  have "system_state (emit Ros_shutdown (emit Ros_fatal s))
        = new_system_state (emit Ros_shutdown (emit Ros_fatal s))"
    using assms(2) by (simp add: emit_def)
  then show ?thesis
    unfolding transitionSystemState_def equal_states_dispatch [OF assms] Let_def by simp
qed

lemma callback_back_to_current:
  assumes "system_state s \<in> {OFF, PACKED, READY, RUNNING}"
   and "transition_state_flag s"
   and "new_system_state s = WAITING_FOR_USER
           \<or> (\<not> start_up_sequence (params s) \<and> system_state s \<in> {OFF, RUNNING})"
  shows "new_system_state (systemStateCallback (system_state s) s) = system_state s
         \<and> system_state (systemStateCallback (system_state s) s) = system_state s
         \<and> transition_state_flag (systemStateCallback (system_state s) s)"
proof (cases "new_system_state s = WAITING_FOR_USER")
  case True
  with assms(1,2) show ?thesis
    by (auto simp: systemStateCallback_def Let_def)
next
  case False
  with assms(3) have h: "\<not> start_up_sequence (params s)" "system_state s \<in> {OFF, RUNNING}"
    by auto
  from h(2) consider "system_state s = OFF" | "system_state s = RUNNING" by auto
  then show ?thesis
  proof cases
    case 1
    with False h(1) assms(2) show ?thesis by (simp add: systemStateCallback_def Let_def)
  next
    case 2
    with False h(1) assms(2) show ?thesis by (simp add: systemStateCallback_def Let_def)
  qed
qed

lemma equal_states_tick:
  assumes "system_state s \<in> {OFF, PACKED, READY, RUNNING}"
    and "new_system_state s = system_state s"
    and "transition_state_flag s"
  shows "\<exists>s' evs. loop env s = Inr s' \<and> trace s' = trace s @ evs @ [Ros_fatal, Ros_shutdown]
           \<and> system_state s' = system_state s \<and> \<not> transition_state_flag s'"
proof -
  from loop_prefix [of env s] assms(3) obtain s1 evs where
    l: "loop env s = Inr (transitionSystemState env s1)"
    and t: "trace s1 = trace s @ evs"
    and f: "system_state s1 = system_state s" "new_system_state s1 = new_system_state s"
    by auto
  have "transitionSystemState env s1
         = (emit Ros_shutdown (emit Ros_fatal s1))\<lparr>transition_state_flag := False\<rparr>"
    using equal_states_fatal [of s1 env] assms(1,2) f by simp
  with l t f show ?thesis by (simp add: emit_def)
qed

text \<open>
  Claim C9. For a state among \<open>OFF\<close>, \<open>PACKED\<close>, \<open>READY\<close> and \<open>RUNNING\<close>:
  entered with target equal to the current state, \<^verbatim>\<open>transitionSystemState\<close> takes
  the undefined-transition branch (fatal message, \<^verbatim>\<open>ros::shutdown()\<close>) and then
  clears the flag; a tick with the flag raised does exactly that. The callback can
  produce this situation: with the flag raised, a command naming the current state
  makes the target equal to it and leaves the flag raised (when the target was still
  \<open>WAITING_FOR_USER\<close>, or when \<^verbatim>\<open>start_up_sequence\<close> is false and the state is
  \<open>OFF\<close> or \<open>RUNNING\<close>).
\<close>

theorem C9_equal_states_take_the_fatal_branch:
  assumes "system_state s \<in> {OFF, PACKED, READY, RUNNING}"
  shows "(new_system_state s = system_state s \<longrightarrow>
            transitionSystemState env s
              = (emit Ros_shutdown (emit Ros_fatal s))\<lparr>transition_state_flag := False\<rparr>)
       \<and> (new_system_state s = system_state s \<and> transition_state_flag s \<longrightarrow>
            (\<exists>s' evs. loop env s = Inr s'
                \<and> trace s' = trace s @ evs @ [Ros_fatal, Ros_shutdown]
                \<and> system_state s' = system_state s \<and> \<not> transition_state_flag s'))
       \<and> (transition_state_flag s
            \<and> (new_system_state s = WAITING_FOR_USER
                \<or> (\<not> start_up_sequence (params s) \<and> system_state s \<in> {OFF, RUNNING})) \<longrightarrow>
            new_system_state (systemStateCallback (system_state s) s) = system_state s
            \<and> system_state (systemStateCallback (system_state s) s) = system_state s
            \<and> transition_state_flag (systemStateCallback (system_state s) s))"
  using equal_states_fatal [OF assms, of env] equal_states_tick [OF assms, of env]
    callback_back_to_current [OF assms]
  by blast

text \<open>
  Witness for C9: direct start-up is under way when the user commands \<open>OFF\<close>; the
  next tick shuts the controller down.
\<close>

theorem C9_fatal_branch_witness:
  "system_state startup_cancelled \<in> {OFF, PACKED, READY, RUNNING}
   \<and> new_system_state startup_cancelled = system_state startup_cancelled
   \<and> transition_state_flag startup_cancelled
   \<and> transitionSystemState env_in_progress startup_cancelled
        = (emit Ros_shutdown (emit Ros_fatal startup_cancelled))\<lparr>transition_state_flag := False\<rparr>
   \<and> (\<exists>s' evs. loop env_in_progress startup_cancelled = Inr s'
          \<and> trace s' = trace startup_cancelled @ evs @ [Ros_fatal, Ros_shutdown]
          \<and> system_state s' = system_state startup_cancelled \<and> \<not> transition_state_flag s')
   \<and> system_state direct_startup_pending = OFF
   \<and> new_system_state direct_startup_pending = RUNNING
   \<and> transition_state_flag direct_startup_pending
   \<and> \<not> start_up_sequence (params direct_startup_pending)
   \<and> new_system_state (systemStateCallback (system_state direct_startup_pending)
        direct_startup_pending) = system_state direct_startup_pending
   \<and> transition_state_flag (systemStateCallback (system_state direct_startup_pending)
        direct_startup_pending)"
proof -
  have h: "system_state startup_cancelled \<in> {OFF, PACKED, READY, RUNNING}
   \<and> new_system_state startup_cancelled = system_state startup_cancelled
   \<and> transition_state_flag startup_cancelled"
    by code_simp
  have k: "system_state direct_startup_pending = OFF
   \<and> new_system_state direct_startup_pending = RUNNING
   \<and> transition_state_flag direct_startup_pending
   \<and> \<not> start_up_sequence (params direct_startup_pending)"
    by code_simp
  have m: "system_state direct_startup_pending \<in> {OFF, PACKED, READY, RUNNING}"
    using k by simp
  have n: "system_state direct_startup_pending \<in> {OFF, RUNNING}"
    using k by simp
  from h have h1: "system_state startup_cancelled \<in> {OFF, PACKED, READY, RUNNING}" by blast
  from C9_equal_states_take_the_fatal_branch [OF h1, of env_in_progress] h
  have a: "transitionSystemState env_in_progress startup_cancelled
        = (emit Ros_shutdown (emit Ros_fatal startup_cancelled))\<lparr>transition_state_flag := False\<rparr>
   \<and> (\<exists>s' evs. loop env_in_progress startup_cancelled = Inr s'
          \<and> trace s' = trace startup_cancelled @ evs @ [Ros_fatal, Ros_shutdown]
          \<and> system_state s' = system_state startup_cancelled \<and> \<not> transition_state_flag s')"
    by blast
  from C9_equal_states_take_the_fatal_branch [OF m, of env_in_progress] k n
  have b: "new_system_state (systemStateCallback (system_state direct_startup_pending)
        direct_startup_pending) = system_state direct_startup_pending
   \<and> transition_state_flag (systemStateCallback (system_state direct_startup_pending)
        direct_startup_pending)"
    by blast
  from h k a b show ?thesis by blast
qed

text \<open>
  For each of the four states a run from construction ends with the target equal to the
  current state and the flag raised; the tick that follows calls \<^verbatim>\<open>ros::shutdown()\<close>.
\<close>

lemma equal_states_reachable:
  "observe system_state (run cancel_direct_startup cold_start) = Inr OFF
   \<and> observe new_system_state (run cancel_direct_startup cold_start) = Inr OFF
   \<and> observe transition_state_flag (run cancel_direct_startup cold_start) = Inr True
   \<and> observe (called Ros_shutdown) (run (cancel_direct_startup @ [Op_loop env_in_progress])
        cold_start) = Inr True
   \<and> observe system_state (run cancel_shutdown cold_start) = Inr RUNNING
   \<and> observe new_system_state (run cancel_shutdown cold_start) = Inr RUNNING
   \<and> observe transition_state_flag (run cancel_shutdown cold_start) = Inr True
   \<and> observe (called Ros_shutdown) (run (cancel_shutdown @ [Op_loop env_in_progress])
        cold_start) = Inr True
   \<and> observe system_state (run ready_commanded_twice cold_start) = Inr READY
   \<and> observe new_system_state (run ready_commanded_twice cold_start) = Inr READY
   \<and> observe transition_state_flag (run ready_commanded_twice cold_start) = Inr True
   \<and> observe (called Ros_shutdown) (run (ready_commanded_twice @ [Op_loop env_in_progress])
        cold_start) = Inr True
   \<and> observe system_state (run packed_commanded_twice cold_start) = Inr PACKED
   \<and> observe new_system_state (run packed_commanded_twice cold_start) = Inr PACKED
   \<and> observe transition_state_flag (run packed_commanded_twice cold_start) = Inr True
   \<and> observe (called Ros_shutdown) (run (packed_commanded_twice @ [Op_loop env_in_progress])
        cold_start) = Inr True"
  by code_simp

section \<open>Parameter adjustment\<close>

lemma clamped_in_range: "lo \<le> hi \<Longrightarrow> lo \<le> clamped v lo hi \<and> clamped v lo hi \<le> hi"
  by (simp add: clamped_def)

lemma adjustParameter_first_call:
  assumes "walk_state s = STOPPED" and "\<not> new_parameter_set s"
    and "parameter_being_adjusted s = Some p"
  shows "\<exists>s'. adjustParameter env s = Inr s'
     \<and> current_value (adjustable (params s') p)
         = clamped (current_value (adjustable (params s) p) + adjust_step (adjustable (params s) p))
             (min_value (adjustable (params s) p)) (max_value (adjustable (params s) p))
     \<and> min_value (adjustable (params s') p) = min_value (adjustable (params s) p)
     \<and> max_value (adjustable (params s') p) = max_value (adjustable (params s) p)
     \<and> adjust_step (adjustable (params s') p) = adjust_step (adjustable (params s) p)
     \<and> (\<forall>q. q \<noteq> p \<longrightarrow> adjustable (params s') q = adjustable (params s) q)
     \<and> trace s' = trace s @ [Impedance_init]
     \<and> new_parameter_set s'
     \<and> parameter_adjust_flag s' = parameter_adjust_flag s"
  using assms by (simp add: adjustParameter_def Let_def emit_def)

lemma adjustParameter_later_call:
  assumes "walk_state s = STOPPED" and "new_parameter_set s"
    and "parameter_being_adjusted s = Some p"
  shows "\<exists>s'. adjustParameter env s = Inr s'
     \<and> params s' = params s
     \<and> trace s' = trace s @ [Poser_stepToNewStance]
     \<and> parameter_adjust_flag s' = (parameter_adjust_flag s \<and> stepToNewStance env \<noteq> 1)
     \<and> new_parameter_set s' = (stepToNewStance env \<noteq> 1)"
  using assms by (simp add: adjustParameter_def Let_def emit_def)

lemma adjustParameter_not_stopped:
  assumes "walk_state s \<noteq> STOPPED"
  shows "\<exists>s'. adjustParameter env s = Inr s'
     \<and> params s' = params s
     \<and> trace s' = trace s
     \<and> linear_velocity_input s' = (0, 0)
     \<and> angular_velocity_input s' = 0
     \<and> parameter_adjust_flag s' = parameter_adjust_flag s"
  using assms by (simp add: adjustParameter_def)

text \<open>
  Claim C8, as amended. With the walker \<open>STOPPED\<close>, the first call of an adjustment
  sets the current value of the parameter being adjusted to
  \<open>clamped (current_value + adjust_step) min max\<close>, which lies between the bounds
  when the lower bound does not exceed the upper one, changes no other parameter,
  re-initialises the impedance controller and nothing else, and keeps the request
  pending. Every later call runs one step of \<^verbatim>\<open>stepToNewStance\<close>, changes no
  parameter, and clears the request exactly when the progress returned is 1. With the
  walker not \<open>STOPPED\<close> the call zeroes the linear and angular velocity inputs and
  changes no parameter.
\<close>

theorem C8_adjustParameter_clamps_and_steps_to_new_stance:
  "(walk_state s = STOPPED \<and> \<not> new_parameter_set s \<and> parameter_being_adjusted s = Some p \<longrightarrow>
      (\<exists>s'. adjustParameter env s = Inr s'
         \<and> current_value (adjustable (params s') p)
             = clamped (current_value (adjustable (params s) p)
                          + adjust_step (adjustable (params s) p))
                 (min_value (adjustable (params s) p)) (max_value (adjustable (params s) p))
         \<and> min_value (adjustable (params s') p) = min_value (adjustable (params s) p)
         \<and> max_value (adjustable (params s') p) = max_value (adjustable (params s) p)
         \<and> (min_value (adjustable (params s) p) \<le> max_value (adjustable (params s) p) \<longrightarrow>
               min_value (adjustable (params s') p) \<le> current_value (adjustable (params s') p)
               \<and> current_value (adjustable (params s') p) \<le> max_value (adjustable (params s') p))
         \<and> (\<forall>q. q \<noteq> p \<longrightarrow> adjustable (params s') q = adjustable (params s) q)
         \<and> trace s' = trace s @ [Impedance_init]
         \<and> new_parameter_set s'
         \<and> parameter_adjust_flag s' = parameter_adjust_flag s))
   \<and> (walk_state s = STOPPED \<and> new_parameter_set s \<and> parameter_being_adjusted s = Some p \<longrightarrow>
      (\<exists>s'. adjustParameter env s = Inr s'
         \<and> params s' = params s
         \<and> trace s' = trace s @ [Poser_stepToNewStance]
         \<and> parameter_adjust_flag s' = (parameter_adjust_flag s \<and> stepToNewStance env \<noteq> 1)
         \<and> new_parameter_set s' = (stepToNewStance env \<noteq> 1)))
   \<and> (walk_state s \<noteq> STOPPED \<longrightarrow>
      (\<exists>s'. adjustParameter env s = Inr s'
         \<and> params s' = params s
         \<and> trace s' = trace s
         \<and> linear_velocity_input s' = (0, 0)
         \<and> angular_velocity_input s' = 0
         \<and> parameter_adjust_flag s' = parameter_adjust_flag s))"
proof (intro conjI impI)
  assume a: "walk_state s = STOPPED \<and> \<not> new_parameter_set s \<and> parameter_being_adjusted s = Some p"
  then obtain s' where s': "adjustParameter env s = Inr s'"
     "current_value (adjustable (params s') p)
         = clamped (current_value (adjustable (params s) p) + adjust_step (adjustable (params s) p))
             (min_value (adjustable (params s) p)) (max_value (adjustable (params s) p))"
     "min_value (adjustable (params s') p) = min_value (adjustable (params s) p)"
     "max_value (adjustable (params s') p) = max_value (adjustable (params s) p)"
     "\<forall>q. q \<noteq> p \<longrightarrow> adjustable (params s') q = adjustable (params s) q"
     "trace s' = trace s @ [Impedance_init]"
     "new_parameter_set s'"
     "parameter_adjust_flag s' = parameter_adjust_flag s"
    using adjustParameter_first_call [of s p env] by blast
  have "min_value (adjustable (params s) p) \<le> max_value (adjustable (params s) p) \<longrightarrow>
               min_value (adjustable (params s') p) \<le> current_value (adjustable (params s') p)
               \<and> current_value (adjustable (params s') p) \<le> max_value (adjustable (params s') p)"
    using clamped_in_range s'(2,3,4) by simp
  with s' show "\<exists>s'. adjustParameter env s = Inr s'
         \<and> current_value (adjustable (params s') p)
             = clamped (current_value (adjustable (params s) p)
                          + adjust_step (adjustable (params s) p))
                 (min_value (adjustable (params s) p)) (max_value (adjustable (params s) p))
         \<and> min_value (adjustable (params s') p) = min_value (adjustable (params s) p)
         \<and> max_value (adjustable (params s') p) = max_value (adjustable (params s) p)
         \<and> (min_value (adjustable (params s) p) \<le> max_value (adjustable (params s) p) \<longrightarrow>
               min_value (adjustable (params s') p) \<le> current_value (adjustable (params s') p)
               \<and> current_value (adjustable (params s') p) \<le> max_value (adjustable (params s') p))
         \<and> (\<forall>q. q \<noteq> p \<longrightarrow> adjustable (params s') q = adjustable (params s) q)
         \<and> trace s' = trace s @ [Impedance_init]
         \<and> new_parameter_set s'
         \<and> parameter_adjust_flag s' = parameter_adjust_flag s"
    by blast
next
  assume "walk_state s = STOPPED \<and> new_parameter_set s \<and> parameter_being_adjusted s = Some p"
  then show "\<exists>s'. adjustParameter env s = Inr s'
         \<and> params s' = params s
         \<and> trace s' = trace s @ [Poser_stepToNewStance]
         \<and> parameter_adjust_flag s' = (parameter_adjust_flag s \<and> stepToNewStance env \<noteq> 1)
         \<and> new_parameter_set s' = (stepToNewStance env \<noteq> 1)"
    using adjustParameter_later_call [of s p env] by blast
next
  assume "walk_state s \<noteq> STOPPED"
  then show "\<exists>s'. adjustParameter env s = Inr s'
         \<and> params s' = params s
         \<and> trace s' = trace s
         \<and> linear_velocity_input s' = (0, 0)
         \<and> angular_velocity_input s' = 0
         \<and> parameter_adjust_flag s' = parameter_adjust_flag s"
    using adjustParameter_not_stopped [of s env] by blast
qed

text \<open>
  Counterexample to C8 as stated: the step frequency is adjusted from 1 to 1.1 and the
  adjustment runs to its end; the impedance controller is re-initialised and
  \<^verbatim>\<open>stepToNewStance\<close> is called, but \<^verbatim>\<open>walker_->init()\<close> is never called.
\<close>

theorem C8_walker_is_not_reinitialised:
  "observe parameter_selection (run parameter_adjustment cold_start) = Inr STEP_FREQUENCY
   \<and> observe (adjusted_value step_frequency) (run parameter_request cold_start) = Inr 1
   \<and> observe (adjusted_value step_frequency) (run parameter_adjustment cold_start) = Inr (11 / 10)
   \<and> observe parameter_adjust_flag (run parameter_adjustment cold_start) = Inr False
   \<and> observe (called Impedance_init) (run parameter_adjustment cold_start) = Inr True
   \<and> observe (called Poser_stepToNewStance) (run parameter_adjustment cold_start) = Inr True
   \<and> observe (called Walker_init) (run parameter_adjustment cold_start) = Inr False"
  by code_simp

text \<open>
  Witness for C8: the step frequency (value 1, step 0.1, bounds 0.1 and 3) is being
  adjusted on the standing robot.
\<close>

theorem C8_adjustParameter_witness:
  "walk_state standing_with_parameter_request = STOPPED
   \<and> \<not> new_parameter_set standing_with_parameter_request
   \<and> parameter_being_adjusted standing_with_parameter_request = Some step_frequency
   \<and> adjustable (params standing_with_parameter_request) step_frequency = example_adjustable
   \<and> (\<exists>s'. adjustParameter env_in_progress standing_with_parameter_request = Inr s'
         \<and> current_value (adjustable (params s') step_frequency)
             = clamped (current_value example_adjustable + adjust_step example_adjustable)
                 (min_value example_adjustable) (max_value example_adjustable)
         \<and> min_value (adjustable (params s') step_frequency)
             \<le> current_value (adjustable (params s') step_frequency)
         \<and> current_value (adjustable (params s') step_frequency)
             \<le> max_value (adjustable (params s') step_frequency)
         \<and> trace s' = [Impedance_init])"
proof -
  have h: "walk_state standing_with_parameter_request = STOPPED
   \<and> \<not> new_parameter_set standing_with_parameter_request
   \<and> parameter_being_adjusted standing_with_parameter_request = Some step_frequency"
    by code_simp
  have a: "adjustable (params standing_with_parameter_request) step_frequency = example_adjustable"
    by (simp add: standing_with_parameter_request_def state_after_def) code_simp
  have t: "trace standing_with_parameter_request = []"
    by code_simp
  have r: "min_value example_adjustable \<le> max_value example_adjustable"
    by code_simp
  from C8_adjustParameter_clamps_and_steps_to_new_stance
         [of standing_with_parameter_request step_frequency env_in_progress] h a t r
  show ?thesis by auto
qed

section \<open>Acceleration limits after a gait change\<close>

























end
